theory Spec2Isabelle
  imports Complex_Main "HOL-Library.Multiset"
begin

section \<open>Errors raised by the Python code\<close>

text \<open>
  Every \<^verbatim>\<open>raise\<close> of the source is a value of this type. \<open>PyException\<close> is the plain
  \<^verbatim>\<open>Exception(...)\<close> raised by the indicator computations when a chart is not available,
  \<open>AttributeError\<close> the reading of an attribute that was never assigned,
  \<open>OutOfBoundsDatetime\<close> the failure of \<^verbatim>\<open>pd.to_datetime\<close>.
\<close>

datatype py_error =
  ValueError | ZeroDivisionError | IndexError | PyException | AttributeError | OutOfBoundsDatetime

section \<open>Range chunker: \<^verbatim>\<open>BitgetService.calculate_api_calls\<close>\<close>

text \<open>
  One entry of the list \<^verbatim>\<open>calls\<close>: the dictionary with the keys
  \<^verbatim>\<open>start_time\<close>, \<^verbatim>\<open>end_time\<close> and \<^verbatim>\<open>candles\<close>.
\<close>

record api_call =
  start_time :: int
  end_time :: int
  candles :: int

definition max_candles_per_call :: int where
  "max_candles_per_call = 1000"

text \<open>
  The \<^verbatim>\<open>while total_candles > 0\<close> loop. Python integers are unbounded, so \<open>int\<close>.
\<close>

function calls_loop :: "int \<Rightarrow> int \<Rightarrow> int \<Rightarrow> api_call list \<Rightarrow> api_call list" where
  "calls_loop current_start_time total_candles granularity_ms calls =
     (if total_candles > 0 then
        (let candles_in_this_call = min total_candles max_candles_per_call;
             current_end_time = current_start_time + candles_in_this_call * granularity_ms
         in calls_loop (current_end_time + granularity_ms)
              (total_candles - candles_in_this_call) granularity_ms
              (calls @ [\<lparr>start_time = current_start_time, end_time = current_end_time,
                         candles = candles_in_this_call\<rparr>]))
      else calls)"
  by pat_completeness auto
termination
  by (relation "measure (\<lambda>(c, total, g, cs). nat total)")
     (auto simp: max_candles_per_call_def)

declare calls_loop.simps [simp del]

text \<open>
  \<^verbatim>\<open>//\<close> is floor division, as \<open>div\<close> on \<open>int\<close>; a zero divisor raises
  \<^verbatim>\<open>ZeroDivisionError\<close>.
\<close>

definition calculate_api_calls :: "int \<Rightarrow> int \<Rightarrow> int \<Rightarrow> py_error + api_call list" where
  "calculate_api_calls start_ms end_ms granularity_ms =
     (if granularity_ms = 0 then Inl ZeroDivisionError
      else
        (let time_diff = end_ms - start_ms;
             total_candles = time_diff div granularity_ms
         in if total_candles = 0 then Inr []
            else Inr (calls_loop start_ms total_candles granularity_ms [])))"

section \<open>Upstream requests and the candle fetcher: \<^verbatim>\<open>BitgetService.get_candlestick_chart\<close>\<close>

text \<open>
  A row of the array the fetcher returns: \<^verbatim>\<open>[int(item[0]), float(item[1]), ..., float(item[6])]\<close>.
  IEEE doubles are idealised as real numbers (rounding and overflow are not modelled). The one
  non-number kept in candle data is a missing closing price (\<^verbatim>\<open>NaN\<close>, \<open>None\<close> here), which
  is what the cleaning steps \<^verbatim>\<open>pd.to_numeric(..., errors='coerce')\<close> and \<^verbatim>\<open>dropna\<close> of the
  indicator computations look for. The field \<^verbatim>\<open>open\<close> is called \<open>open_price\<close> because
  \<open>open\<close> is a constant of HOL.
\<close>

record candle =
  timestamp :: int
  open_price :: real
  high :: real
  low :: real
  close :: "real option"
  volume :: real
  notional :: real

definition convert_granularity_to_ms :: "string \<Rightarrow> py_error + int" where
  "convert_granularity_to_ms granularity =
     (if granularity = ''1m'' then Inr (60 * 1000)
      else if granularity = ''5m'' then Inr (5 * 60 * 1000)
      else if granularity = ''15m'' then Inr (15 * 60 * 1000)
      else if granularity = ''30m'' then Inr (30 * 60 * 1000)
      else if granularity = ''1H'' then Inr (3600 * 1000)
      else if granularity = ''4H'' then Inr (4 * 3600 * 1000)
      else if granularity = ''12H'' then Inr (12 * 3600 * 1000)
      else if granularity = ''1D'' then Inr (24 * 3600 * 1000)
      else if granularity = ''1W'' then Inr (7 * 24 * 3600 * 1000)
      else if granularity = ''1MO'' then Inr (30 * 24 * 3600 * 1000)
      else Inl ValueError)"

text \<open>
  The query parameters of one \<^verbatim>\<open>session.get\<close> (\<^verbatim>\<open>productType\<close> and \<^verbatim>\<open>limit\<close> are
  constants); \<^verbatim>\<open>startTime\<close> and \<^verbatim>\<open>endTime\<close> are absent until the code sets them. The
  response is its HTTP status and the decoded \<^verbatim>\<open>data\<close> list; decoding the JSON and parsing
  the numbers of a row belong to the transport and are not modelled, so a batch is a list of
  candles. The upstream is a parameter: any function from the attempt number and the request
  to a response.
\<close>

record request =
  symbol :: string
  granularity :: string
  startTime :: "int option"
  endTime :: "int option"

record response =
  status :: int
  data :: "candle list"

type_synonym upstream = "nat \<Rightarrow> request \<Rightarrow> response"

text \<open>
  The \<^verbatim>\<open>for i, call in enumerate(api_calls)\<close> loop. The state is the attempt number, the
  remaining calls, the two mutable entries of \<^verbatim>\<open>params\<close> and \<^verbatim>\<open>final_result\<close>; the result
  is the list of requests sent, in order, and the array returned. \<^verbatim>\<open>if start_time:\<close> and
  \<^verbatim>\<open>if end_time and ...\<close> are Python truth tests: false for 0.
\<close>

fun fetch_loop :: "upstream \<Rightarrow> string \<Rightarrow> string \<Rightarrow> int \<Rightarrow> int \<Rightarrow> nat \<Rightarrow> api_call list
    \<Rightarrow> int option \<Rightarrow> int option \<Rightarrow> candle list \<Rightarrow> request list \<times> candle list" where
  "fetch_loop session symb gran start_ms end_ms i [] p_start p_end final_result = ([], final_result)"
| "fetch_loop session symb gran start_ms end_ms i (call # api_calls) p_start p_end final_result =
     (let p_start = (if start_ms \<noteq> 0 then Some (start_time call) else p_start);
          p_end = (if end_ms \<noteq> 0 then Some (end_time call) else p_end);
          params = \<lparr>symbol = symb, granularity = gran, startTime = p_start, endTime = p_end\<rparr>;
          response = session i params
      in if status response = 200 then
           (if data response = [] then ([params], final_result)
            else
              (let final_result = final_result @ data response;
                   last_timestamp = timestamp (last (data response))
               in if end_ms \<noteq> 0 \<and> last_timestamp \<ge> end_ms then ([params], final_result)
                  else
                    (case fetch_loop session symb gran start_ms end_ms (Suc i) api_calls
                            (Some (last_timestamp + 1)) p_end final_result
                     of (sent, arr) \<Rightarrow> (params # sent, arr))))
         else ([params], final_result))"

definition get_candlestick_chart_log :: "upstream \<Rightarrow> string \<Rightarrow> string \<Rightarrow> int \<Rightarrow> int
    \<Rightarrow> py_error + request list \<times> candle list" where
  "get_candlestick_chart_log session symb gran start_ms end_ms =
     (case convert_granularity_to_ms gran of
        Inl e \<Rightarrow> Inl e
      | Inr granularity_ms \<Rightarrow>
          (case calculate_api_calls start_ms end_ms granularity_ms of
             Inl e \<Rightarrow> Inl e
           | Inr api_calls \<Rightarrow>
               Inr (fetch_loop session symb gran start_ms end_ms 0 api_calls None None [])))"

definition get_candlestick_chart :: "upstream \<Rightarrow> string \<Rightarrow> string \<Rightarrow> int \<Rightarrow> int
    \<Rightarrow> py_error + candle list" where
  "get_candlestick_chart session symb gran start_ms end_ms =
     (case get_candlestick_chart_log session symb gran start_ms end_ms of
        Inl e \<Rightarrow> Inl e
      | Inr (sent, final_result) \<Rightarrow> Inr final_result)"

section \<open>Floating-point values computed by the indicator code\<close>

text \<open>
  A computed float is a real number, \<^verbatim>\<open>nan\<close> or an infinity. The operations are those of
  numpy's \<^verbatim>\<open>float64\<close>, which never raise: a division by zero gives an infinity or \<^verbatim>\<open>nan\<close>,
  a comparison with \<^verbatim>\<open>nan\<close> is false. Signed zeros and rounding are not modelled.
\<close>

datatype pyfloat = Finite real | NaN | PosInf | NegInf

fun isna :: "pyfloat \<Rightarrow> bool" where
  "isna NaN = True"
| "isna _ = False"

fun isinf :: "pyfloat \<Rightarrow> bool" where
  "isinf PosInf = True"
| "isinf NegInf = True"
| "isinf _ = False"

fun of_opt :: "real option \<Rightarrow> pyfloat" where
  "of_opt None = NaN"
| "of_opt (Some x) = Finite x"

fun np_sub :: "pyfloat \<Rightarrow> pyfloat \<Rightarrow> pyfloat" where
  "np_sub NaN _ = NaN"
| "np_sub _ NaN = NaN"
| "np_sub (Finite x) (Finite y) = Finite (x - y)"
| "np_sub (Finite x) PosInf = NegInf"
| "np_sub (Finite x) NegInf = PosInf"
| "np_sub PosInf PosInf = NaN"
| "np_sub PosInf _ = PosInf"
| "np_sub NegInf NegInf = NaN"
| "np_sub NegInf _ = NegInf"

fun np_mul :: "pyfloat \<Rightarrow> pyfloat \<Rightarrow> pyfloat" where
  "np_mul NaN _ = NaN"
| "np_mul _ NaN = NaN"
| "np_mul (Finite x) (Finite y) = Finite (x * y)"
| "np_mul (Finite x) PosInf = (if x = 0 then NaN else if x > 0 then PosInf else NegInf)"
| "np_mul (Finite x) NegInf = (if x = 0 then NaN else if x > 0 then NegInf else PosInf)"
| "np_mul PosInf (Finite y) = (if y = 0 then NaN else if y > 0 then PosInf else NegInf)"
| "np_mul NegInf (Finite y) = (if y = 0 then NaN else if y > 0 then NegInf else PosInf)"
| "np_mul PosInf PosInf = PosInf"
| "np_mul PosInf NegInf = NegInf"
| "np_mul NegInf PosInf = NegInf"
| "np_mul NegInf NegInf = PosInf"

fun np_div :: "pyfloat \<Rightarrow> pyfloat \<Rightarrow> pyfloat" where
  "np_div NaN _ = NaN"
| "np_div _ NaN = NaN"
| "np_div (Finite x) (Finite y) =
     (if y \<noteq> 0 then Finite (x / y)
      else if x > 0 then PosInf else if x < 0 then NegInf else NaN)"
| "np_div (Finite x) _ = Finite 0"
| "np_div PosInf (Finite y) = (if y < 0 then NegInf else PosInf)"
| "np_div NegInf (Finite y) = (if y < 0 then PosInf else NegInf)"
| "np_div _ _ = NaN"

fun np_abs :: "pyfloat \<Rightarrow> pyfloat" where
  "np_abs (Finite x) = Finite \<bar>x\<bar>"
| "np_abs NaN = NaN"
| "np_abs _ = PosInf"

fun np_lt :: "pyfloat \<Rightarrow> pyfloat \<Rightarrow> bool" where
  "np_lt NaN _ = False"
| "np_lt _ NaN = False"
| "np_lt (Finite x) (Finite y) = (x < y)"
| "np_lt (Finite x) PosInf = True"
| "np_lt NegInf (Finite y) = True"
| "np_lt NegInf PosInf = True"
| "np_lt _ _ = False"

definition np_gt :: "pyfloat \<Rightarrow> pyfloat \<Rightarrow> bool" where
  "np_gt a b = np_lt b a"

text \<open>
  Division of two Python \<^verbatim>\<open>float\<close> objects (the entries of an \<^verbatim>\<open>object\<close> column) raises
  \<^verbatim>\<open>ZeroDivisionError\<close> on a zero divisor.
\<close>

definition py_truediv :: "pyfloat \<Rightarrow> pyfloat \<Rightarrow> py_error + pyfloat" where
  "py_truediv a b = (if b = Finite 0 then Inl ZeroDivisionError else Inr (np_div a b))"

section \<open>Series operations of pandas used by the indicators\<close>

text \<open>\<^verbatim>\<open>candle_stick_data.any()\<close>: some entry of the array is truthy (non-zero; \<^verbatim>\<open>nan\<close> is truthy).\<close>

definition candle_truthy :: "candle \<Rightarrow> bool" where
  "candle_truthy c =
     (timestamp c \<noteq> 0 \<or> open_price c \<noteq> 0 \<or> high c \<noteq> 0 \<or> low c \<noteq> 0
      \<or> close c \<noteq> Some 0 \<or> volume c \<noteq> 0 \<or> notional c \<noteq> 0)"

definition array_any :: "candle list \<Rightarrow> bool" where
  "array_any arr = list_ex candle_truthy arr"

text \<open>\<^verbatim>\<open>df.dropna(subset=['close'])\<close>.\<close>

definition dropna_close :: "candle list \<Rightarrow> candle list" where
  "dropna_close df = filter (\<lambda>c. close c \<noteq> None) df"

text \<open>\<^verbatim>\<open>series.rolling(window=n).mean().iloc[-1]\<close>: \<^verbatim>\<open>nan\<close> unless the last \<open>n\<close> entries exist and
  are numbers.\<close>

definition rolling_mean_last :: "nat \<Rightarrow> real option list \<Rightarrow> pyfloat" where
  "rolling_mean_last window xs =
     (if length xs < window then NaN
      else
        (let w = drop (length xs - window) xs
         in if list_all (\<lambda>x. x \<noteq> None) w
            then Finite (sum_list (List.map_filter id w) / real window)
            else NaN))"

text \<open>\<^verbatim>\<open>series.pct_change()\<close>: missing entries are filled forward first (the default
  \<^verbatim>\<open>fill_method='pad'\<close>), the first entry is \<^verbatim>\<open>nan\<close>, entry \<open>i\<close> is
  \<open>x\<^sub>i / x\<^sub>i\<^sub>-\<^sub>1 - 1\<close>.\<close>

fun ffill :: "real option \<Rightarrow> real option list \<Rightarrow> real option list" where
  "ffill prev [] = []"
| "ffill prev (None # xs) = prev # ffill prev xs"
| "ffill prev (Some x # xs) = Some x # ffill (Some x) xs"

definition pct_change :: "real option list \<Rightarrow> pyfloat list" where
  "pct_change xs =
     (case ffill None xs of
        [] \<Rightarrow> []
      | d # ds \<Rightarrow>
          NaN # map (\<lambda>(cur, prev). np_sub (np_div (of_opt cur) (of_opt prev)) (Finite 1))
                  (zip ds (d # ds)))"

fun the_finite :: "pyfloat \<Rightarrow> real" where
  "the_finite (Finite x) = x"
| "the_finite _ = 0"

text \<open>\<^verbatim>\<open>series.std()\<close>: \<^verbatim>\<open>nan\<close> entries are skipped; the sample standard deviation
  (\<^verbatim>\<open>ddof=1\<close>) of the rest, \<^verbatim>\<open>nan\<close> when fewer than two remain or one is infinite.\<close>

definition series_std :: "pyfloat list \<Rightarrow> pyfloat" where
  "series_std xs =
     (let vs = filter (\<lambda>x. \<not> isna x) xs
      in if length vs < 2 then NaN
         else if list_ex isinf vs then NaN
         else
           (let rs = map the_finite vs;
                n = real (length rs);
                m = sum_list rs / n
            in Finite (sqrt (sum_list (map (\<lambda>x. (x - m)\<^sup>2) rs) / (n - 1)))))"

text \<open>\<^verbatim>\<open>series.mean()\<close> of a column of numbers: \<^verbatim>\<open>nan\<close> for an empty column.\<close>

definition series_mean :: "real list \<Rightarrow> pyfloat" where
  "series_mean xs = (if xs = [] then NaN else Finite (sum_list xs / real (length xs)))"

text \<open>\<^verbatim>\<open>sub in s\<close> on strings.\<close>

fun is_prefix :: "string \<Rightarrow> string \<Rightarrow> bool" where
  "is_prefix [] s = True"
| "is_prefix (x # xs) [] = False"
| "is_prefix (x # xs) (y # ys) = (x = y \<and> is_prefix xs ys)"

fun str_contains :: "string \<Rightarrow> string \<Rightarrow> bool" where
  "str_contains [] sub = is_prefix sub []"
| "str_contains (c # s) sub = (is_prefix sub (c # s) \<or> str_contains s sub)"

text \<open>
  \<^verbatim>\<open>pd.to_datetime(df['timestamp'], unit='ms')\<close>: datetimes are 64-bit counts of
  nanoseconds, so a timestamp of more than 9223372036854 milliseconds, before or after the
  epoch, raises \<^verbatim>\<open>OutOfBoundsDatetime\<close>.
\<close>

definition datetime_bound_ms :: int where
  "datetime_bound_ms = 9223372036854"

definition to_datetime_ok :: "candle list \<Rightarrow> bool" where
  "to_datetime_ok df =
     list_all (\<lambda>c. - datetime_bound_ms \<le> timestamp c \<and> timestamp c \<le> datetime_bound_ms) df"

section \<open>Arithmetic of the trend classifications\<close>

text \<open>
  The two trend classifications compute on \<^verbatim>\<open>float64\<close> columns, where every operation
  rounds, and they branch on the results. What the arithmetic yields is therefore a parameter
  of their model:

    \<^item> \<open>rolling_mean n xs\<close> is \<^verbatim>\<open>xs.rolling(window=n).mean().iloc[-1]\<close>;
    \<^item> \<open>pct_change_std xs\<close> is \<^verbatim>\<open>(xs.pct_change() * 100).std()\<close>;
    \<^item> \<open>rel_diff_below a b t\<close> is the outcome of the test \<^verbatim>\<open>abs(a - b) / b < t\<close>;
    \<^item> \<open>pct_diff a b\<close> is \<^verbatim>\<open>((a - b) / b) * 100\<close>.

  A value \<open>Finite r\<close> is the double whose value is \<open>r\<close>. Comparing two doubles does not
  round, and the constants 0, 1, 2 and 5 the cascades compare with are doubles, so these
  comparisons are \<open>np_lt\<close> and \<open>np_gt\<close>. The thresholds 0.003 and 0.01 are not doubles:
  the test against them is part of \<open>rel_diff_below\<close>.
\<close>

record float64 =
  rolling_mean :: "nat \<Rightarrow> real option list \<Rightarrow> pyfloat"
  pct_change_std :: "real option list \<Rightarrow> pyfloat"
  rel_diff_below :: "pyfloat \<Rightarrow> pyfloat \<Rightarrow> real \<Rightarrow> bool"
  pct_diff :: "pyfloat \<Rightarrow> pyfloat \<Rightarrow> pyfloat"

text \<open>
  The arithmetic without rounding, on which concrete series are evaluated below. Those series
  are chosen so that doubles give the same branches: their prices are small integers, and no
  quantity lies near a threshold.
\<close>

definition pct_volatility :: "real option list \<Rightarrow> pyfloat" where
  "pct_volatility closes = series_std (map (\<lambda>p. np_mul p (Finite 100)) (pct_change closes))"

definition exact :: float64 where
  "exact =
     \<lparr>rolling_mean = rolling_mean_last,
      pct_change_std = pct_volatility,
      rel_diff_below = (\<lambda>a b t. np_lt (np_div (np_abs (np_sub a b)) b) (Finite t)),
      pct_diff = (\<lambda>a b. np_mul (np_div (np_sub a b) b) (Finite 100))\<rparr>"

section \<open>Indicator computations: \<^verbatim>\<open>FundingRateChart\<close>\<close>

text \<open>
  \<^verbatim>\<open>self.bitget_service.get_candlestick_chart(self.symbol, granularity, start_time, end_time)\<close>:
  the data service of the chart (\<^verbatim>\<open>CryptoDataService\<close>) is a parameter, a function from
  the bar duration and the window to the array it returns.
\<close>

type_synonym service = "string \<Rightarrow> int \<Rightarrow> int \<Rightarrow> candle list"

text \<open>
  \<^verbatim>\<open>get_8h_variation\<close>. The first component of the result is the list of bar durations
  fetched, in order; the second is the outcome: an error, or the value returned together with
  the frame stored in \<^verbatim>\<open>self.df8h\<close>. The columns of \<^verbatim>\<open>df8h\<close> hold Python floats, so both
  divisions raise on a zero divisor, also the one whose result (\<^verbatim>\<open>regg\<close>) is not used.
\<close>

definition get_8h_variation :: "service \<Rightarrow> int \<Rightarrow> string list \<times> (py_error + pyfloat \<times> candle list)" where
  "get_8h_variation svc period =
     (let end_ms = period + 8 * 60 * 60 * 1000;
          first_fetch = svc ''1H'' period end_ms;
          (fetched, candle_stick_data) =
             (if \<not> array_any first_fetch
              then ([''1H'', ''4H''], svc ''4H'' period end_ms)
              else ([''1H''], first_fetch))
      in if \<not> array_any candle_stick_data then (fetched, Inl PyException)
         else
           (case candle_stick_data of
              [] \<Rightarrow> (fetched, Inl IndexError)
            | first_bar # rest \<Rightarrow>
                (let df8h = candle_stick_data;
                     start_price = Finite (open_price first_bar);
                     regression = Finite (min_list (map low df8h));
                     end_price = of_opt (close (last df8h))
                 in (fetched,
                     (case py_truediv (np_sub start_price end_price) end_price of
                        Inl e \<Rightarrow> Inl e
                      | Inr q \<Rightarrow>
                          (let volatility = np_mul q (Finite 100)
                           in (case py_truediv (np_sub start_price regression) regression of
                                 Inl e \<Rightarrow> Inl e
                               | Inr q' \<Rightarrow> Inr (volatility, df8h))))))))"

text \<open>
  \<^verbatim>\<open>get_10m_variation\<close>: the value returned and the frame stored in \<^verbatim>\<open>self.df10m\<close>.
\<close>

definition get_10m_variation :: "service \<Rightarrow> int \<Rightarrow> py_error + pyfloat \<times> candle list" where
  "get_10m_variation svc period =
     (let end_ms = period + 10 * 60 * 1000;
          candle_stick_data = svc ''1m'' period end_ms
      in if \<not> array_any candle_stick_data then Inl PyException
         else
           (let df10m = dropna_close candle_stick_data
            in if length df10m < 2 then Inr (Finite 0, df10m)
               else
                 (let start_price = Finite (open_price (hd df10m));
                      lowest_price = Finite (min_list (map low df10m))
                  in (case py_truediv (np_sub start_price lowest_price) lowest_price of
                        Inl e \<Rightarrow> Inl e
                      | Inr volatility \<Rightarrow> Inr (volatility, df10m)))))"

text \<open>
  The decision cascade of \<^verbatim>\<open>get_daily_trend\<close>, from the check of the moving averages to the
  \<^verbatim>\<open>return\<close>.
\<close>

definition daily_cascade :: "float64 \<Rightarrow> pyfloat \<Rightarrow> pyfloat \<Rightarrow> pyfloat \<Rightarrow> pyfloat \<Rightarrow> string" where
  "daily_cascade fl latest_close latest_ma5 latest_ma15 volatility =
     (if isna latest_ma5 \<or> isna latest_ma15 then ''neutral''
      else
        (let volatility_threshold = Finite 2;
             trend =
               (if np_lt latest_close latest_ma5 \<and> np_lt latest_ma5 latest_ma15
                  then ''strongly bearish''
                else if np_gt latest_close latest_ma5 \<and> np_gt latest_ma5 latest_ma15
                  then ''strongly bullish''
                else if np_lt latest_close latest_ma5 then ''bearish''
                else if np_gt latest_close latest_ma5 then ''bullish''
                else ''neutral'');
             trend =
               (if rel_diff_below fl latest_ma5 latest_ma15 0.003
                then ''sideways'' else trend)
         in if np_gt volatility volatility_threshold then
              (if str_contains trend ''bearish'' then ''volatile bearish''
               else if str_contains trend ''bullish'' then ''volatile bullish''
               else ''volatile'')
            else trend))"

text \<open>
  \<^verbatim>\<open>get_daily_trend\<close>: an error, or the label returned and the frame written to
  \<^verbatim>\<open>self.dfdaily\<close>, if one is written. The timestamps of the rows that are left after
  \<^verbatim>\<open>dropna\<close> are converted to datetimes, which can raise. Sorting by \<^verbatim>\<open>datetime\<close> is
  sorting by the timestamp.
\<close>

definition get_daily_trend :: "float64 \<Rightarrow> service \<Rightarrow> int
    \<Rightarrow> py_error + string \<times> candle list option" where
  "get_daily_trend fl svc period =
     (let end_ms = period;
          start_ms = period - 24 * 60 * 60 * 1000;
          candle_stick_data = svc ''15m'' start_ms end_ms
      in if \<not> array_any candle_stick_data then Inr (''neutral'', None)
         else
           (let dfdaily = dropna_close candle_stick_data
            in if \<not> to_datetime_ok dfdaily then Inl OutOfBoundsDatetime
               else
                 (let dfdaily = sort_key timestamp dfdaily
                  in if length dfdaily = 0 then Inr (''neutral'', Some dfdaily)
                     else
                       (let closes = map close dfdaily;
                            ma5 = rolling_mean fl 5 closes;
                            ma15 = rolling_mean fl 15 closes;
                            volatility = pct_change_std fl closes;
                            latest_close = of_opt (last closes)
                        in Inr (daily_cascade fl latest_close ma5 ma15 volatility,
                                Some dfdaily)))))"

text \<open>
  The decision cascade of \<^verbatim>\<open>get_weekly_trends\<close>, from \<^verbatim>\<open>trend = "neutral"\<close> to the
  \<^verbatim>\<open>return\<close>. There is no check of the moving averages here.
\<close>

definition weekly_cascade :: "float64 \<Rightarrow> pyfloat \<Rightarrow> pyfloat \<Rightarrow> pyfloat \<Rightarrow> pyfloat \<Rightarrow> pyfloat
    \<Rightarrow> string" where
  "weekly_cascade fl latest_close latest_ma20 latest_ma50 weekly_change_pct volatility =
     (let volatility_threshold = Finite 2;
          price_change_threshold = 5;
          trend =
            (if np_gt latest_close latest_ma20 \<and> np_gt latest_ma20 latest_ma50 then
               (if np_gt weekly_change_pct (Finite price_change_threshold)
                then ''strongly bullish'' else ''bullish'')
             else if np_lt latest_close latest_ma20 \<and> np_lt latest_ma20 latest_ma50 then
               (if np_lt weekly_change_pct (Finite (- price_change_threshold))
                then ''strongly bearish'' else ''bearish'')
             else if np_lt (np_abs weekly_change_pct) (Finite 1) then ''neutral''
             else
               (if rel_diff_below fl latest_ma20 latest_ma50 0.01
                then ''sideways''
                else if np_gt weekly_change_pct (Finite 0) then ''corrective''
                else ''volatile''))
      in if np_gt volatility volatility_threshold then ''volatile'' else trend)"

text \<open>
  \<^verbatim>\<open>get_weekly_trends\<close>: an error, or the label returned and the frame stored in
  \<^verbatim>\<open>self.dfweekly\<close>. The frame is not cleaned, so a closing price may be missing, and the
  timestamps of all its rows are converted to datetimes, which can raise.
\<close>

definition get_weekly_trends :: "float64 \<Rightarrow> service \<Rightarrow> int
    \<Rightarrow> py_error + string \<times> candle list" where
  "get_weekly_trends fl svc period =
     (let start_ms = period;
          end_ms = period + 7 * 24 * 60 * 60 * 1000;
          candle_stick_data = svc ''1H'' start_ms end_ms
      in if \<not> array_any candle_stick_data then Inl PyException
         else if \<not> to_datetime_ok candle_stick_data then Inl OutOfBoundsDatetime
         else
           (case candle_stick_data of
              [] \<Rightarrow> Inl IndexError
            | first_bar # rest \<Rightarrow>
                (let dfweekly = candle_stick_data;
                     closes = map close dfweekly;
                     ma20 = rolling_mean fl 20 closes;
                     ma50 = rolling_mean fl 50 closes;
                     volatility = pct_change_std fl closes;
                     latest_close = of_opt (last closes);
                     first_open = Finite (open_price first_bar);
                     weekly_change_pct = pct_diff fl latest_close first_open
                 in Inr (weekly_cascade fl latest_close ma20 ma50 weekly_change_pct volatility,
                         dfweekly))))"

text \<open>
  \<^verbatim>\<open>get_volatility_index\<close>, as a function of \<^verbatim>\<open>self.df10m\<close> (\<open>None\<close> while no frame has
  been stored). The result \<open>Inr None\<close> is Python's \<^verbatim>\<open>None\<close>.
\<close>

definition log_returns :: "real list \<Rightarrow> real list" where
  "log_returns closes =
     (case closes of
        [] \<Rightarrow> []
      | c # cs \<Rightarrow> map (\<lambda>(cur, prev). ln (cur / prev)) (zip cs (c # cs)))"

definition get_volatility_index :: "candle list option \<Rightarrow> py_error + pyfloat option" where
  "get_volatility_index df10m =
     (case df10m of
        None \<Rightarrow> Inl ValueError
      | Some df \<Rightarrow>
          (let closes = filter (\<lambda>c. c > 0) (List.map_filter close df);
               log_return = log_returns closes
           in if length log_return < 2 then Inr None
              else
                (let volatility = series_std (map Finite log_return);
                     periods_per_year = 252 * 1440;
                     annualized_volatility = np_mul volatility (Finite (sqrt periods_per_year));
                     volatility_index = np_mul annualized_volatility (Finite 100)
                 in if isna volatility_index \<or> isinf volatility_index then Inr None
                    else Inr (Some volatility_index))))"

text \<open>
  \<^verbatim>\<open>get_average_trading_volume\<close> and \<^verbatim>\<open>get_average_trading_volume_weekly\<close>: the mean
  volume and the frame stored (\<^verbatim>\<open>self.dfdaily\<close>, \<^verbatim>\<open>self.dfweekly\<close>).
\<close>

definition get_average_trading_volume :: "service \<Rightarrow> int \<Rightarrow> py_error + pyfloat \<times> candle list" where
  "get_average_trading_volume svc period =
     (let start_ms = period;
          end_ms = period + 24 * 60 * 60 * 1000;
          candle_stick_data = svc ''1H'' start_ms end_ms
      in if \<not> array_any candle_stick_data then Inl PyException
         else Inr (series_mean (map volume candle_stick_data), candle_stick_data))"

definition get_average_trading_volume_weekly :: "service \<Rightarrow> int \<Rightarrow> py_error + pyfloat \<times> candle list" where
  "get_average_trading_volume_weekly svc period =
     (let start_ms = period - 7 * 24 * 60 * 60 * 1000;
          end_ms = period;
          candle_stick_data = svc ''4H'' start_ms end_ms
      in if \<not> array_any candle_stick_data then Inl PyException
         else Inr (series_mean (map volume candle_stick_data), candle_stick_data))"

definition get_funding_rate :: "string \<Rightarrow> int \<Rightarrow> real" where
  "get_funding_rate symb period = 0.01"

section \<open>Sentiment fusion: \<^verbatim>\<open>FundingRateChart.market_sentiment\<close>\<close>

text \<open>
  The attributes of a \<^verbatim>\<open>FundingRateChart\<close> that \<^verbatim>\<open>market_sentiment\<close> reads.
  \<^verbatim>\<open>__init__\<close> sets \<^verbatim>\<open>df8h\<close>, \<^verbatim>\<open>df10m\<close> and \<^verbatim>\<open>dfweekly\<close> to \<^verbatim>\<open>None\<close>; in place of
  \<^verbatim>\<open>dfdaily\<close> it sets \<^verbatim>\<open>dfdialy\<close>, so \<open>dfdaily = None\<close> is a chart that has no such
  attribute until a frame is stored in it.
\<close>

record chart =
  chart_symbol :: string
  df8h :: "candle list option"
  df10m :: "candle list option"
  dfdaily :: "candle list option"
  dfweekly :: "candle list option"
  daily_trend :: string
  weekly_trend :: string
  volatility_index :: "pyfloat option"
  average_trading_volume :: pyfloat

definition funding_vote :: "real \<Rightarrow> string" where
  "funding_vote funding_rate =
     (if funding_rate > 0.1 then ''bearish''
      else if funding_rate < - 0.1 then ''bullish''
      else ''neutral'')"

definition price_vote :: "string \<Rightarrow> string" where
  "price_vote trend =
     (if trend \<in> set [''strongly bullish'', ''highly bullish'', ''bullish''] then ''bullish''
      else if trend \<in> set [''strongly bearish'', ''highly bearish'', ''bearish''] then ''bearish''
      else ''neutral'')"

definition volatility_vote :: "pyfloat \<Rightarrow> string" where
  "volatility_vote index =
     (if np_gt index (Finite 50) then ''uncertain''
      else if np_lt index (Finite 10) then ''stable''
      else ''moderate'')"

definition volume_vote :: "pyfloat \<Rightarrow> string" where
  "volume_vote volume_change =
     (if np_gt volume_change (Finite 20) then ''optimistic''
      else if np_lt volume_change (Finite (- 20)) then ''pessimistic''
      else ''neutral'')"

definition bullish_count :: "string list \<Rightarrow> nat" where
  "bullish_count sentiments =
     count_list sentiments ''bullish'' + count_list sentiments ''optimistic''
       + count_list sentiments ''positive''"

definition bearish_count :: "string list \<Rightarrow> nat" where
  "bearish_count sentiments =
     count_list sentiments ''bearish'' + count_list sentiments ''pessimistic''
       + count_list sentiments ''negative''"

text \<open>
  The lines from \<^verbatim>\<open># Determine final sentiment\<close> to the \<^verbatim>\<open>return\<close>: the list
  \<^verbatim>\<open>sentiments\<close> is counted, \<^verbatim>\<open>volatility_sentiment\<close> and \<^verbatim>\<open>price_sentiment\<close> are read by
  name.
\<close>

definition final_sentiment :: "string list \<Rightarrow> string \<Rightarrow> string \<Rightarrow> string" where
  "final_sentiment sentiments price_sentiment volatility_sentiment =
     (let sentiment =
            (if bullish_count sentiments > bearish_count sentiments then
               (if bullish_count sentiments \<ge> 3 then ''highly positive'' else ''positive'')
             else if bearish_count sentiments > bullish_count sentiments then
               (if bearish_count sentiments \<ge> 3 then ''highly negative'' else ''negative'')
             else ''mixed'');
          sentiment = (if volatility_sentiment = ''uncertain'' then ''uncertain'' else sentiment)
      in if sentiment = ''positive'' \<and> price_sentiment = ''bullish'' then ''bullish''
         else if sentiment = ''negative'' \<and> price_sentiment = ''bearish'' then ''bearish''
         else sentiment)"

definition fuse_votes :: "string \<Rightarrow> string \<Rightarrow> string \<Rightarrow> string \<Rightarrow> string" where
  "fuse_votes funding_sentiment price_sentiment volatility_sentiment volume_sentiment =
     final_sentiment
       [funding_sentiment, price_sentiment, volatility_sentiment, volume_sentiment]
       price_sentiment volatility_sentiment"

text \<open>The four votes \<^verbatim>\<open>market_sentiment\<close> derives, once its fetches have succeeded.\<close>

definition sentiment_votes :: "chart \<Rightarrow> int \<Rightarrow> pyfloat \<Rightarrow> string list" where
  "sentiment_votes self period weekly_average_volume =
     (let index = (case volatility_index self of None \<Rightarrow> Finite 0 | Some v \<Rightarrow> v);
          funding_rate = get_funding_rate (chart_symbol self) period;
          average_volume = average_trading_volume self;
          volume_change =
            np_mul (np_div (np_sub average_volume weekly_average_volume) weekly_average_volume)
              (Finite 100)
      in [funding_vote funding_rate, price_vote (daily_trend self), volatility_vote index,
          volume_vote volume_change])"

definition market_sentiment :: "service \<Rightarrow> chart \<Rightarrow> int \<Rightarrow> py_error + string" where
  "market_sentiment svc self period =
     (if df8h self = None \<or> df10m self = None then Inl ValueError
      else if dfdaily self = None then Inl AttributeError
      else if dfweekly self = None then Inl ValueError
      else
        (case snd (get_8h_variation svc period) of
           Inl e \<Rightarrow> Inl e
         | Inr h8_variation \<Rightarrow>
             (case get_10m_variation svc period of
                Inl e \<Rightarrow> Inl e
              | Inr h10m_variation \<Rightarrow>
                  (case get_average_trading_volume_weekly svc period of
                     Inl e \<Rightarrow> Inl e
                   | Inr (weekly_average_volume, df_volume_weekly) \<Rightarrow>
                       (case sentiment_votes self period weekly_average_volume of
                          [funding_sentiment, price_sentiment, volatility_sentiment,
                           volume_sentiment] \<Rightarrow>
                            Inr (fuse_votes funding_sentiment price_sentiment
                                   volatility_sentiment volume_sentiment)
                        | _ \<Rightarrow> Inl IndexError)))))"

section \<open>The report: \<^verbatim>\<open>FundingRateChart.set_analysis\<close>\<close>

text \<open>
  A value of the \<^verbatim>\<open>result\<close> dictionary. \<^verbatim>\<open>isinstance(value, float)\<close> holds for Python
  floats and for numpy's \<^verbatim>\<open>float64\<close>, so both are \<open>PyFloat\<close>.
\<close>

datatype pyval = PyNone | PyFloat pyfloat | PyStr string | PyList "pyval list"

fun float_or_none :: "pyfloat option \<Rightarrow> pyval" where
  "float_or_none None = PyNone"
| "float_or_none (Some x) = PyFloat x"

text \<open>The loop \<^verbatim>\<open>for key, value in result.items()\<close> replaces values, keeping keys and order.\<close>

fun sanitize_value :: "pyval \<Rightarrow> pyval" where
  "sanitize_value (PyFloat x) = (if isna x \<or> isinf x then PyNone else PyFloat x)"
| "sanitize_value v = v"

definition sanitize :: "(string \<times> pyval) list \<Rightarrow> (string \<times> pyval) list" where
  "sanitize result = map (\<lambda>(key, v). (key, sanitize_value v)) result"

definition build_result :: "string \<Rightarrow> pyfloat \<Rightarrow> pyfloat \<Rightarrow> string \<Rightarrow> string \<Rightarrow> pyfloat option
    \<Rightarrow> pyfloat \<Rightarrow> string \<Rightarrow> (string \<times> pyval) list" where
  "build_result period_text h8_variation h10m_variation daily weekly index average_volume
       sentiment =
     [(''description'', PyList []),
      (''period'', PyStr period_text),
      (''8h_variation'', PyFloat h8_variation),
      (''10m_variation'', PyFloat h10m_variation),
      (''daily_trend'', PyStr daily),
      (''weekly_trend'', PyStr weekly),
      (''volatility_index'', float_or_none index),
      (''average_trading_volume'', PyFloat average_volume),
      (''market_sentiment'', PyStr sentiment)]"

text \<open>
  \<^verbatim>\<open>set_analysis\<close>. The five gathered computations are taken in the order of the list
  \<^verbatim>\<open>tasks\<close> (which of several failures surfaces first is a matter of scheduling and is not
  modelled); \<open>fl\<close> is the arithmetic of the two trend classifications, \<open>strftime\<close> the
  formatting of the period as a UTC date. \<^verbatim>\<open>self.dfdaily\<close> is written by
  \<^verbatim>\<open>get_daily_trend\<close> and by \<^verbatim>\<open>get_average_trading_volume\<close>;
  \<^verbatim>\<open>market_sentiment\<close> only tests that it is set, and the model stores the frame of the
  latter.
\<close>

definition set_analysis :: "float64 \<Rightarrow> (int \<Rightarrow> string) \<Rightarrow> service \<Rightarrow> string \<Rightarrow> int
    \<Rightarrow> py_error + (string \<times> pyval) list" where
  "set_analysis fl strftime svc symb period =
     (case snd (get_8h_variation svc period) of
        Inl e \<Rightarrow> Inl e
      | Inr (h8_variation, frame8h) \<Rightarrow>
     (case get_10m_variation svc period of
        Inl e \<Rightarrow> Inl e
      | Inr (h10m_variation, frame10m) \<Rightarrow>
     (case get_daily_trend fl svc period of
        Inl e \<Rightarrow> Inl e
      | Inr (daily, frame_daily) \<Rightarrow>
     (case get_weekly_trends fl svc period of
        Inl e \<Rightarrow> Inl e
      | Inr (weekly, frame_weekly) \<Rightarrow>
     (case get_average_trading_volume svc period of
        Inl e \<Rightarrow> Inl e
      | Inr (average_volume, frame_volume) \<Rightarrow>
     (case get_volatility_index (Some frame10m) of
        Inl e \<Rightarrow> Inl e
      | Inr index \<Rightarrow>
     (let self = \<lparr>chart_symbol = symb, df8h = Some frame8h, df10m = Some frame10m,
                  dfdaily = Some frame_volume, dfweekly = Some frame_weekly,
                  daily_trend = daily, weekly_trend = weekly, volatility_index = index,
                  average_trading_volume = average_volume\<rparr>
      in (case market_sentiment svc self period of
            Inl e \<Rightarrow> Inl e
          | Inr sentiment \<Rightarrow>
              Inr (sanitize (build_result (strftime period) h8_variation h10m_variation
                               daily weekly index average_volume sentiment))))))))))"

section \<open>Notions used to state the properties\<close>

text \<open>
  The fusion rule in the words of the specification, to be compared with \<open>fuse_votes\<close>:
  optimistic counts as bullish and pessimistic as bearish; the larger count wins, a winning
  count of 3 or 4 is "highly", equal counts are "mixed"; an "uncertain" volatility vote
  overrides the result; a plain "positive"/"negative" becomes "bullish"/"bearish" when the
  price-trend vote points the same way.
\<close>

definition spec_bullish_votes :: "string list \<Rightarrow> nat" where
  "spec_bullish_votes votes = length (filter (\<lambda>s. s = ''bullish'' \<or> s = ''optimistic'') votes)"

definition spec_bearish_votes :: "string list \<Rightarrow> nat" where
  "spec_bearish_votes votes = length (filter (\<lambda>s. s = ''bearish'' \<or> s = ''pessimistic'') votes)"

definition spec_fusion :: "string \<Rightarrow> string \<Rightarrow> string \<Rightarrow> string \<Rightarrow> string" where
  "spec_fusion funding price volatility vol =
     (let b = spec_bullish_votes [funding, price, volatility, vol];
          r = spec_bearish_votes [funding, price, volatility, vol]
      in if volatility = ''uncertain'' then ''uncertain''
         else if b > r then
           (if b = 3 \<or> b = 4 then ''highly positive''
            else if price = ''bullish'' then ''bullish'' else ''positive'')
         else if r > b then
           (if r = 3 \<or> r = 4 then ''highly negative''
            else if price = ''bearish'' then ''bearish'' else ''negative'')
         else ''mixed'')"

text \<open>A vote that counts for one of the two sides.\<close>

definition directional :: "string \<Rightarrow> bool" where
  "directional s = (s \<in> set [''bullish'', ''bearish'', ''optimistic'', ''pessimistic'', ''positive'', ''negative''])"

text \<open>
  Candles of a real chart carry their opening time in epoch milliseconds, which is not 0. On
  such a series \<^verbatim>\<open>.any()\<close> is the test for a non-empty series.
\<close>

definition stamped :: "candle list \<Rightarrow> bool" where
  "stamped arr = list_all (\<lambda>c. timestamp c \<noteq> 0) arr"

text \<open>
  What one response adds to the array, and the three conditions under which the walk stops
  after it.
\<close>

definition batch_of :: "response \<Rightarrow> candle list" where
  "batch_of r = (if status r = 200 then data r else [])"

definition stops_walk :: "int \<Rightarrow> response \<Rightarrow> bool" where
  "stops_walk end_ms r =
     (status r \<noteq> 200 \<or> data r = [] \<or> (end_ms \<noteq> 0 \<and> timestamp (last (data r)) \<ge> end_ms))"

text \<open>The numeric fields of the report, and what the report may hold in them.\<close>

definition numeric_keys :: "string list" where
  "numeric_keys = [''8h_variation'', ''10m_variation'', ''volatility_index'',
                   ''average_trading_volume'']"

fun finite_or_none :: "pyval \<Rightarrow> bool" where
  "finite_or_none PyNone = True"
| "finite_or_none (PyFloat (Finite x)) = True"
| "finite_or_none v = False"

text \<open>
  Names for what the two classifications fetch and for the columns they compute on: the
  series fetched for the day before the period; its rows that have a closing price, sorted
  (the frame \<^verbatim>\<open>dfdaily\<close>), and their closing prices; the series fetched for the week after
  the period (the frame \<^verbatim>\<open>dfweekly\<close>).
\<close>

definition daily_fetch :: "service \<Rightarrow> int \<Rightarrow> candle list" where
  "daily_fetch svc period = svc ''15m'' (period - 24 * 60 * 60 * 1000) period"

definition daily_frame :: "service \<Rightarrow> int \<Rightarrow> candle list" where
  "daily_frame svc period = sort_key timestamp (dropna_close (daily_fetch svc period))"

definition daily_closes :: "service \<Rightarrow> int \<Rightarrow> real option list" where
  "daily_closes svc period = map close (daily_frame svc period)"

definition weekly_frame :: "service \<Rightarrow> int \<Rightarrow> candle list" where
  "weekly_frame svc period = svc ''1H'' period (period + 7 * 24 * 60 * 60 * 1000)"

text \<open>
  The quantities \<^verbatim>\<open>get_weekly_trends\<close> branches on: the latest close, the two moving
  averages, the percentage change over the week and the standard deviation of the percentage
  price changes.
\<close>

definition weekly_close :: "service \<Rightarrow> int \<Rightarrow> pyfloat" where
  "weekly_close svc period = of_opt (last (map close (weekly_frame svc period)))"

definition weekly_ma :: "float64 \<Rightarrow> nat \<Rightarrow> service \<Rightarrow> int \<Rightarrow> pyfloat" where
  "weekly_ma fl n svc period = rolling_mean fl n (map close (weekly_frame svc period))"

definition weekly_change :: "float64 \<Rightarrow> service \<Rightarrow> int \<Rightarrow> pyfloat" where
  "weekly_change fl svc period =
     pct_diff fl (weekly_close svc period) (Finite (open_price (hd (weekly_frame svc period))))"

definition weekly_volatility :: "float64 \<Rightarrow> service \<Rightarrow> int \<Rightarrow> pyfloat" where
  "weekly_volatility fl svc period = pct_change_std fl (map close (weekly_frame svc period))"

section \<open>Concrete inputs\<close>

text \<open>A service that answers every fetch with one candle, and a chart whose frames are set.\<close>

definition unit_candle :: candle where
  "unit_candle = \<lparr>timestamp = 1, open_price = 1, high = 1, low = 1, close = Some 1,
                   volume = 1, notional = 1\<rparr>"

definition flat_service :: service where
  "flat_service gran start_ms end_ms = [unit_candle]"

definition example_chart :: chart where
  "example_chart = \<lparr>chart_symbol = ''BTCUSDT'', df8h = Some [unit_candle], df10m = Some [unit_candle],
      dfdaily = Some [unit_candle], dfweekly = Some [unit_candle], daily_trend = ''bullish'',
      weekly_trend = ''neutral'', volatility_index = None, average_trading_volume = Finite 2\<rparr>"

text \<open>A service with no data, and one that answers every fetch with two bars.\<close>

definition empty_service :: service where
  "empty_service gran start_ms end_ms = []"

definition bar1 :: candle where
  "bar1 = \<lparr>timestamp = 60000, open_price = 100, high = 110, low = 90, close = Some 105,
            volume = 5, notional = 500\<rparr>"

definition bar2 :: candle where
  "bar2 = \<lparr>timestamp = 120000, open_price = 105, high = 120, low = 100, close = Some 110,
            volume = 7, notional = 700\<rparr>"

definition two_bar_service :: service where
  "two_bar_service gran start_ms end_ms = [bar1, bar2]"

text \<open>A service with no hourly data whose four-hour fetch has two bars.\<close>

definition fallback_service :: service where
  "fallback_service gran start_ms end_ms = (if gran = ''1H'' then [] else [bar1, bar2])"

text \<open>A service whose series is one bar that traded down to the price 0.\<close>

definition bar_zero_low :: candle where
  "bar_zero_low = \<lparr>timestamp = 60000, open_price = 100, high = 110, low = 0, close = Some 80,
                     volume = 5, notional = 500\<rparr>"

definition zero_low_service :: service where
  "zero_low_service gran start_ms end_ms = [bar_zero_low]"

text \<open>An upstream that has one page of two bars and then fails.\<close>

definition two_page_session :: upstream where
  "two_page_session i rq =
     (if i = 0 then \<lparr>status = 200, data = [bar1, bar2]\<rparr> else \<lparr>status = 500, data = []\<rparr>)"

text \<open>A service whose hourly series ends with a bar that has no closing price.\<close>

definition bar_gap :: candle where
  "bar_gap = \<lparr>timestamp = 120000, open_price = 105, high = 120, low = 100, close = None,
               volume = 7, notional = 700\<rparr>"

definition gap_service :: service where
  "gap_service gran start_ms end_ms = (if gran = ''1H'' then [bar1, bar_gap] else [bar1, bar2])"

text \<open>A formatting of the period that always prints the epoch.\<close>

definition epoch_text :: "int \<Rightarrow> string" where
  "epoch_text period = ''1970-01-01 00:00:00 UTC''"

text \<open>
  A bar with all four prices equal, and a fifteen-bar series that repeats the closes
  1, 1, 1, 1, 2: its 5- and 15-period moving averages are equal, its price changes large.
\<close>

definition bar_at :: "int \<Rightarrow> real \<Rightarrow> candle" where
  "bar_at t c = \<lparr>timestamp = t, open_price = c, high = c, low = c, close = Some c,
                 volume = 1, notional = c\<rparr>"

definition choppy_series :: "candle list" where
  "choppy_series =
     [bar_at 900000 1, bar_at 1800000 1, bar_at 2700000 1, bar_at 3600000 1, bar_at 4500000 2,
      bar_at 5400000 1, bar_at 6300000 1, bar_at 7200000 1, bar_at 8100000 1, bar_at 9000000 2,
      bar_at 9900000 1, bar_at 10800000 1, bar_at 11700000 1, bar_at 12600000 1,
      bar_at 13500000 2]"

definition choppy_service :: service where
  "choppy_service gran start_ms end_ms = choppy_series"

text \<open>Fifty hourly bars at the price 100.\<close>

definition steady_series :: "candle list" where
  "steady_series =
     bar_at 3600000 100 # map (\<lambda>i. bar_at (3600000 * int i) 100) [2..<51]"

definition steady_service :: service where
  "steady_service gran start_ms end_ms = steady_series"

text \<open>Fifty hourly bars closing at 100, the first of which opened at 90.\<close>

definition drift_series :: "candle list" where
  "drift_series =
     (bar_at 3600000 100)\<lparr>open_price := 90\<rparr>
       # map (\<lambda>i. bar_at (3600000 * int i) 100) [2..<51]"

definition drift_service :: service where
  "drift_service gran start_ms end_ms = drift_series"

section \<open>Properties of the range chunker\<close>

lemma calls_loop_acc:
  "calls_loop cur t g acc = acc @ calls_loop cur t g []"
proof (induction "nat t" arbitrary: cur t acc rule: less_induct)
  case less
  show ?case
  proof (cases "t > 0")
    case True
    define k where "k = min t max_candles_per_call"
    define c where "c = \<lparr>start_time = cur, end_time = cur + k * g, candles = k\<rparr>"
    have dec: "nat (t - k) < nat t"
      using True by (simp add: k_def max_candles_per_call_def)
    have l: "calls_loop cur t g acc = calls_loop (cur + k * g + g) (t - k) g (acc @ [c])"
      using True by (subst calls_loop.simps) (simp add: Let_def k_def c_def)
    have r: "calls_loop cur t g [] = calls_loop (cur + k * g + g) (t - k) g [c]"
      using True by (subst calls_loop.simps) (simp add: Let_def k_def c_def)
    have "calls_loop (cur + k * g + g) (t - k) g (acc @ [c])
            = (acc @ [c]) @ calls_loop (cur + k * g + g) (t - k) g []"
      by (rule less[OF dec])
    moreover have "calls_loop (cur + k * g + g) (t - k) g [c]
            = [c] @ calls_loop (cur + k * g + g) (t - k) g []"
      by (rule less[OF dec])
    ultimately show ?thesis by (simp add: l r)
  next
    case False
    then show ?thesis by (subst (1 2) calls_loop.simps) simp
  qed
qed

lemma calls_loop_step:
  assumes "t > 0"
  shows "calls_loop cur t g [] =
           \<lparr>start_time = cur, end_time = cur + min t max_candles_per_call * g,
             candles = min t max_candles_per_call\<rparr>
           # calls_loop (cur + min t max_candles_per_call * g + g)
               (t - min t max_candles_per_call) g []"
proof -
  have "calls_loop cur t g [] =
          calls_loop (cur + min t max_candles_per_call * g + g)
            (t - min t max_candles_per_call) g
            [\<lparr>start_time = cur, end_time = cur + min t max_candles_per_call * g,
              candles = min t max_candles_per_call\<rparr>]"
    using assms by (subst calls_loop.simps) (simp add: Let_def)
  then show ?thesis
    by (simp add: calls_loop_acc[of _ _ _ "[_]"])
qed

lemma calls_loop_done:
  "\<not> t > 0 \<Longrightarrow> calls_loop cur t g [] = []"
  by (subst calls_loop.simps) simp

lemma calls_loop_sum:
  "sum_list (map candles (calls_loop cur t g [])) = max t 0"
proof (induction "nat t" arbitrary: cur t rule: less_induct)
  case less
  show ?case
  proof (cases "t > 0")
    case True
    define k where "k = min t max_candles_per_call"
    have dec: "nat (t - k) < nat t"
      using True by (simp add: k_def max_candles_per_call_def)
    have step: "calls_loop cur t g [] =
        \<lparr>start_time = cur, end_time = cur + k * g, candles = k\<rparr>
          # calls_loop (cur + k * g + g) (t - k) g []"
      unfolding k_def by (rule calls_loop_step[OF True])
    have "sum_list (map candles (calls_loop (cur + k * g + g) (t - k) g [])) = max (t - k) 0"
      by (rule less[OF dec])
    moreover have "k \<le> t" by (simp add: k_def)
    ultimately show ?thesis using True by (simp add: step)
  next
    case False
    then show ?thesis by (simp add: calls_loop_done)
  qed
qed

lemma calls_loop_each:
  assumes "0 < g"
  shows "c \<in> set (calls_loop cur t g []) \<Longrightarrow>
     end_time c = start_time c + candles c * g \<and> 0 < candles c
     \<and> candles c \<le> max_candles_per_call \<and> cur \<le> start_time c"
proof (induction "nat t" arbitrary: cur t rule: less_induct)
  case less
  show ?case
  proof (cases "t > 0")
    case True
    define k where "k = min t max_candles_per_call"
    have kpos: "0 < k" using True by (simp add: k_def max_candles_per_call_def)
    have kle: "k \<le> max_candles_per_call" by (simp add: k_def)
    have dec: "nat (t - k) < nat t"
      using True by (simp add: k_def max_candles_per_call_def)
    have step: "calls_loop cur t g [] =
        \<lparr>start_time = cur, end_time = cur + k * g, candles = k\<rparr>
          # calls_loop (cur + k * g + g) (t - k) g []"
      unfolding k_def by (rule calls_loop_step[OF True])
    from less.prems
    have "c = \<lparr>start_time = cur, end_time = cur + k * g, candles = k\<rparr>
      \<or> c \<in> set (calls_loop (cur + k * g + g) (t - k) g [])"
      by (simp add: step)
    then show ?thesis
    proof
      assume "c = \<lparr>start_time = cur, end_time = cur + k * g, candles = k\<rparr>"
      then show ?thesis using kpos kle by simp
    next
      assume 2: "c \<in> set (calls_loop (cur + k * g + g) (t - k) g [])"
      have ih: "end_time c = start_time c + candles c * g \<and> 0 < candles c
         \<and> candles c \<le> max_candles_per_call \<and> cur + k * g + g \<le> start_time c"
        by (rule less.hyps[OF dec 2])
      moreover have "0 < k * g" using kpos assms by simp
      ultimately show ?thesis using assms by simp
    qed
  next
    case False
    with less.prems show ?thesis by (simp add: calls_loop_done)
  qed
qed

lemma calls_loop_successive:
  "Suc i < length (calls_loop cur t g []) \<Longrightarrow>
     start_time (calls_loop cur t g [] ! Suc i) = end_time (calls_loop cur t g [] ! i) + g"
proof (induction "nat t" arbitrary: cur t i rule: less_induct)
  case less
  show ?case
  proof (cases "t > 0")
    case True
    define k where "k = min t max_candles_per_call"
    define rest where "rest = calls_loop (cur + k * g + g) (t - k) g []"
    have dec: "nat (t - k) < nat t"
      using True by (simp add: k_def max_candles_per_call_def)
    have step: "calls_loop cur t g [] =
        \<lparr>start_time = cur, end_time = cur + k * g, candles = k\<rparr> # rest"
      unfolding k_def rest_def by (rule calls_loop_step[OF True])
    show ?thesis
    proof (cases i)
      case 0
      from less.prems have ne: "rest \<noteq> []" by (simp add: step 0)
      have pos: "t - k > 0"
      proof (rule ccontr)
        assume "\<not> t - k > 0"
        then have "rest = []" unfolding rest_def by (rule calls_loop_done)
        with ne show False by simp
      qed
      have "rest = \<lparr>start_time = cur + k * g + g,
               end_time = cur + k * g + g + min (t - k) max_candles_per_call * g,
               candles = min (t - k) max_candles_per_call\<rparr>
             # calls_loop (cur + k * g + g + min (t - k) max_candles_per_call * g + g)
                 (t - k - min (t - k) max_candles_per_call) g []"
        unfolding rest_def by (rule calls_loop_step[OF pos])
      then have "start_time (rest ! 0) = cur + k * g + g" by simp
      then show ?thesis by (simp add: step 0)
    next
      case (Suc j)
      from less.prems have "Suc j < length rest" by (simp add: step Suc)
      then have "start_time (rest ! Suc j) = end_time (rest ! j) + g"
        unfolding rest_def by (rule less.hyps[OF dec])
      then show ?thesis by (simp add: step Suc)
    qed
  next
    case False
    with less.prems show ?thesis by (simp add: calls_loop_done)
  qed
qed

lemma calls_loop_separated:
  assumes "0 < g"
  shows "sorted_wrt (\<lambda>a b. end_time a < start_time b) (calls_loop cur t g [])"
proof (induction "nat t" arbitrary: cur t rule: less_induct)
  case less
  show ?case
  proof (cases "t > 0")
    case True
    define k where "k = min t max_candles_per_call"
    define rest where "rest = calls_loop (cur + k * g + g) (t - k) g []"
    have dec: "nat (t - k) < nat t"
      using True by (simp add: k_def max_candles_per_call_def)
    have step: "calls_loop cur t g [] =
        \<lparr>start_time = cur, end_time = cur + k * g, candles = k\<rparr> # rest"
      unfolding k_def rest_def by (rule calls_loop_step[OF True])
    have after: "\<forall>c \<in> set rest. cur + k * g < start_time c"
    proof
      fix c assume "c \<in> set rest"
      then have "cur + k * g + g \<le> start_time c"
        unfolding rest_def using calls_loop_each[OF assms] by blast
      then show "cur + k * g < start_time c" using assms by simp
    qed
    have "sorted_wrt (\<lambda>a b. end_time a < start_time b) rest"
      unfolding rest_def by (rule less[OF dec])
    with after show ?thesis by (simp add: step)
  next
    case False
    then show ?thesis by (simp add: calls_loop_done)
  qed
qed

lemma calls_loop_ordered:
  assumes "0 < g"
  shows "sorted_wrt (\<lambda>a b. start_time a < start_time b) (calls_loop cur t g [])"
proof (rule sorted_wrt_mono_rel[OF _ calls_loop_separated[OF assms]])
  fix a b :: api_call
  assume a: "a \<in> set (calls_loop cur t g [])" and lt: "end_time a < start_time b"
  from calls_loop_each[OF assms a]
  have e: "end_time a = start_time a + candles a * g" and p: "0 < candles a" by simp_all
  have "0 < candles a * g" using p assms by simp
  with e lt show "start_time a < start_time b" by simp
qed

lemma calculate_api_calls_example:
  "calculate_api_calls 0 (60000 * 1000 * 2) 60000 =
     Inr [\<lparr>start_time = 0, end_time = 1000 * 60000, candles = 1000\<rparr>,
          \<lparr>start_time = 1000 * 60000 + 60000, end_time = 2000 * 60000 + 60000, candles = 1000\<rparr>]"
proof -
  have a: "calls_loop 0 2000 60000 [] =
      \<lparr>start_time = 0, end_time = 60000000, candles = 1000\<rparr> # calls_loop 60060000 1000 60000 []"
    using calls_loop_step[of 2000 0 60000] by (simp add: max_candles_per_call_def)
  have b: "calls_loop 60060000 1000 60000 [] =
      \<lparr>start_time = 60060000, end_time = 120060000, candles = 1000\<rparr> # calls_loop 120120000 0 60000 []"
    using calls_loop_step[of 1000 60060000 60000] by (simp add: max_candles_per_call_def)
  have c: "calls_loop 120120000 0 60000 [] = []" by (simp add: calls_loop_done)
  show ?thesis by (simp add: calculate_api_calls_def a b c)
qed

text \<open>
  Claim C1. For every window with \<open>start_ms < end_ms\<close> and a positive bar duration,
  \<^verbatim>\<open>calculate_api_calls\<close> returns (without raising) a list of chunks whose candle
  counts sum to \<open>(end_ms - start_ms) div granularity_ms\<close>; every chunk ends at its start plus
  its candles times the bar duration and holds between 1 and 1000 candles; every chunk after
  the first starts exactly one bar duration after the end of the chunk before it; the chunks
  are strictly ordered by start time and do not overlap (each ends before every later one
  starts); a window with zero whole bars, in particular \<open>start = end\<close>, gives the empty
  list; and the window \<open>[0, 60000 * 1000 * 2)\<close> at 60000 ms gives two chunks of 1000
  candles, the second starting at \<open>1000 * 60000 + 60000\<close>.
\<close>

theorem calculate_api_calls_chunks:
  "(start_ms < end_ms \<and> 0 < granularity_ms \<longrightarrow>
     (\<exists>calls. calculate_api_calls start_ms end_ms granularity_ms = Inr calls
        \<and> sum_list (map candles calls) = (end_ms - start_ms) div granularity_ms
        \<and> (\<forall>c \<in> set calls. end_time c = start_time c + candles c * granularity_ms
               \<and> 0 < candles c \<and> candles c \<le> 1000)
        \<and> (\<forall>i. Suc i < length calls \<longrightarrow>
               start_time (calls ! Suc i) = end_time (calls ! i) + granularity_ms)
        \<and> sorted_wrt (\<lambda>a b. start_time a < start_time b) calls
        \<and> sorted_wrt (\<lambda>a b. end_time a < start_time b) calls
        \<and> ((end_ms - start_ms) div granularity_ms = 0 \<longrightarrow> calls = [])))
   \<and> (0 < granularity_ms \<longrightarrow> calculate_api_calls start_ms start_ms granularity_ms = Inr [])
   \<and> calculate_api_calls 0 (60000 * 1000 * 2) 60000 =
        Inr [\<lparr>start_time = 0, end_time = 1000 * 60000, candles = 1000\<rparr>,
             \<lparr>start_time = 1000 * 60000 + 60000, end_time = 2000 * 60000 + 60000,
               candles = 1000\<rparr>]"
proof (intro conjI impI)
  assume h: "start_ms < end_ms \<and> 0 < granularity_ms"
  then have g: "0 < granularity_ms" and lt: "start_ms < end_ms" by simp_all
  define total where "total = (end_ms - start_ms) div granularity_ms"
  have nonneg: "0 \<le> total"
    unfolding total_def using g lt by (simp add: pos_imp_zdiv_nonneg_iff)
  define calls where "calls = calls_loop start_ms total granularity_ms []"
  have empty: "total = 0 \<Longrightarrow> calls = []"
    unfolding calls_def by (simp add: calls_loop_done)
  have eq: "calculate_api_calls start_ms end_ms granularity_ms = Inr calls"
    using g empty by (simp add: calculate_api_calls_def Let_def total_def[symmetric] calls_def[symmetric])
  have s: "sum_list (map candles calls) = total"
    unfolding calls_def using nonneg by (simp add: calls_loop_sum)
  have e: "\<forall>c \<in> set calls. end_time c = start_time c + candles c * granularity_ms
               \<and> 0 < candles c \<and> candles c \<le> 1000"
    unfolding calls_def using calls_loop_each[OF g] by (simp add: max_candles_per_call_def)
  have n: "\<forall>i. Suc i < length calls \<longrightarrow>
               start_time (calls ! Suc i) = end_time (calls ! i) + granularity_ms"
    unfolding calls_def using calls_loop_successive by blast
  have o1: "sorted_wrt (\<lambda>a b. start_time a < start_time b) calls"
    unfolding calls_def by (rule calls_loop_ordered[OF g])
  have o2: "sorted_wrt (\<lambda>a b. end_time a < start_time b) calls"
    unfolding calls_def by (rule calls_loop_separated[OF g])
  show "\<exists>calls. calculate_api_calls start_ms end_ms granularity_ms = Inr calls
        \<and> sum_list (map candles calls) = (end_ms - start_ms) div granularity_ms
        \<and> (\<forall>c \<in> set calls. end_time c = start_time c + candles c * granularity_ms
               \<and> 0 < candles c \<and> candles c \<le> 1000)
        \<and> (\<forall>i. Suc i < length calls \<longrightarrow>
               start_time (calls ! Suc i) = end_time (calls ! i) + granularity_ms)
        \<and> sorted_wrt (\<lambda>a b. start_time a < start_time b) calls
        \<and> sorted_wrt (\<lambda>a b. end_time a < start_time b) calls
        \<and> ((end_ms - start_ms) div granularity_ms = 0 \<longrightarrow> calls = [])"
    using eq s e n o1 o2 empty unfolding total_def by blast
next
  assume "0 < granularity_ms"
  then show "calculate_api_calls start_ms start_ms granularity_ms = Inr []"
    by (simp add: calculate_api_calls_def)
next
  show "calculate_api_calls 0 (60000 * 1000 * 2) 60000 =
        Inr [\<lparr>start_time = 0, end_time = 1000 * 60000, candles = 1000\<rparr>,
             \<lparr>start_time = 1000 * 60000 + 60000, end_time = 2000 * 60000 + 60000,
               candles = 1000\<rparr>]"
    by (rule calculate_api_calls_example)
qed

theorem calculate_api_calls_chunks_witness:
  "(0::int) < 150000000 \<and> (0::int) < 60000
   \<and> (\<exists>calls. calculate_api_calls 0 150000000 60000 = Inr calls
        \<and> sum_list (map candles calls) = 2500
        \<and> (\<forall>c \<in> set calls. end_time c = start_time c + candles c * 60000
               \<and> 0 < candles c \<and> candles c \<le> 1000)
        \<and> (\<forall>i. Suc i < length calls \<longrightarrow>
               start_time (calls ! Suc i) = end_time (calls ! i) + 60000)
        \<and> sorted_wrt (\<lambda>a b. start_time a < start_time b) calls
        \<and> sorted_wrt (\<lambda>a b. end_time a < start_time b) calls)
   \<and> calculate_api_calls 7 7 60000 = Inr []"
  using calculate_api_calls_chunks[of 0 150000000 60000]
    calculate_api_calls_chunks[of 7 7 60000]
  by simp

section \<open>Properties of the sentiment fusion\<close>

lemma bullish_count_spec:
  "''positive'' \<notin> set votes \<Longrightarrow> bullish_count votes = spec_bullish_votes votes"
  by (induction votes) (auto simp: bullish_count_def spec_bullish_votes_def)

lemma bearish_count_spec:
  "''negative'' \<notin> set votes \<Longrightarrow> bearish_count votes = spec_bearish_votes votes"
  by (induction votes) (auto simp: bearish_count_def spec_bearish_votes_def)

lemma spec_votes_le: "spec_bullish_votes votes \<le> length votes" "spec_bearish_votes votes \<le> length votes"
  by (simp_all add: spec_bullish_votes_def spec_bearish_votes_def)

lemma final_sentiment_mset:
  assumes "mset votes' = mset votes"
  shows "final_sentiment votes' p v = final_sentiment votes p v"
proof -
  have "\<And>s. count_list votes' s = count_list votes s"
    using assms by (metis count_mset)
  then have "bullish_count votes' = bullish_count votes" "bearish_count votes' = bearish_count votes"
    by (simp_all add: bullish_count_def bearish_count_def)
  then show ?thesis by (simp add: final_sentiment_def)
qed

text \<open>
  Claim C2. For four votes none of which is itself the word "positive" or "negative" (no
  category of votes contains them), the fusion of \<^verbatim>\<open>market_sentiment\<close> is the rule of
  the specification: strict majority of the bullish count (bullish, optimistic) over the
  bearish count (bearish, pessimistic) gives "positive", "highly positive" for a winning count
  of 3 or 4, symmetrically for bearish, equal counts give "mixed", an "uncertain" volatility
  vote overrides everything, and "positive"/"negative" is tightened to "bullish"/"bearish"
  exactly when the price-trend vote agrees. The counting does not depend on the order of the
  votes: any rearrangement of the list gives the same label.
\<close>

theorem fuse_votes_spec:
  assumes "''positive'' \<notin> set [f, p, v, w]" and "''negative'' \<notin> set [f, p, v, w]"
  shows "fuse_votes f p v w = spec_fusion f p v w
     \<and> (\<forall>votes'. mset votes' = mset [f, p, v, w] \<longrightarrow> final_sentiment votes' p v = fuse_votes f p v w)"
proof
  let ?vs = "[f, p, v, w]"
  have b: "bullish_count ?vs = spec_bullish_votes ?vs" by (rule bullish_count_spec[OF assms(1)])
  have r: "bearish_count ?vs = spec_bearish_votes ?vs" by (rule bearish_count_spec[OF assms(2)])
  have lb: "spec_bullish_votes ?vs \<le> 4" using spec_votes_le(1)[of ?vs] by simp
  have lr: "spec_bearish_votes ?vs \<le> 4" using spec_votes_le(2)[of ?vs] by simp
  have b34: "(3 \<le> spec_bullish_votes ?vs) = (spec_bullish_votes ?vs = 3 \<or> spec_bullish_votes ?vs = 4)"
    using lb by auto
  have r34: "(3 \<le> spec_bearish_votes ?vs) = (spec_bearish_votes ?vs = 3 \<or> spec_bearish_votes ?vs = 4)"
    using lr by auto
  show "fuse_votes f p v w = spec_fusion f p v w"
    unfolding fuse_votes_def final_sentiment_def spec_fusion_def Let_def b r b34 r34
    by simp
  show "\<forall>votes'. mset votes' = mset [f, p, v, w] \<longrightarrow> final_sentiment votes' p v = fuse_votes f p v w"
    by (simp add: fuse_votes_def final_sentiment_mset)
qed

theorem fuse_votes_spec_witness:
  "''positive'' \<notin> set [''bullish'', ''bearish'', ''bearish'', ''optimistic'']
   \<and> ''negative'' \<notin> set [''bullish'', ''bearish'', ''bearish'', ''optimistic'']
   \<and> fuse_votes ''bullish'' ''bearish'' ''bearish'' ''optimistic'' = ''mixed''
   \<and> spec_fusion ''bullish'' ''bearish'' ''bearish'' ''optimistic'' = ''mixed''
   \<and> final_sentiment [''optimistic'', ''bearish'', ''bullish'', ''bearish''] ''bearish'' ''bearish'' = ''mixed''"
proof -
  have h1: "''positive'' \<notin> set [''bullish'', ''bearish'', ''bearish'', ''optimistic'']" by simp
  have h2: "''negative'' \<notin> set [''bullish'', ''bearish'', ''bearish'', ''optimistic'']" by simp
  have s: "spec_fusion ''bullish'' ''bearish'' ''bearish'' ''optimistic'' = ''mixed''"
    by (simp add: spec_fusion_def spec_bullish_votes_def spec_bearish_votes_def)
  have m: "mset [''optimistic'', ''bearish'', ''bullish'', ''bearish''] = mset [''bullish'', ''bearish'', ''bearish'', ''optimistic'']"
    by (simp add: add.commute)
  from fuse_votes_spec[OF h1 h2] s m show ?thesis using h1 h2 by metis
qed

lemma funding_vote_neutral: "funding_vote (get_funding_rate symb period) = ''neutral''"
  by (simp add: funding_vote_def get_funding_rate_def)

lemma sentiment_votes_shape:
  "\<exists>p v w. sentiment_votes self period wavg = [''neutral'', p, v, w]
     \<and> p = price_vote (daily_trend self)"
  by (simp add: sentiment_votes_def Let_def funding_vote_neutral)

lemma bullish_count_neutral_le:
  "bullish_count [''neutral'', p, v, w] \<le> 3"
proof -
  have "count_list [p, v, w] ''bullish'' + count_list [p, v, w] ''optimistic''
          + count_list [p, v, w] ''positive'' \<le> 3"
    by auto
  then show ?thesis by (simp add: bullish_count_def)
qed

lemma bearish_count_neutral_le:
  "bearish_count [''neutral'', p, v, w] \<le> 3"
proof -
  have "count_list [p, v, w] ''bearish'' + count_list [p, v, w] ''pessimistic''
          + count_list [p, v, w] ''negative'' \<le> 3"
    by auto
  then show ?thesis by (simp add: bearish_count_def)
qed

lemma market_sentiment_Inr:
  assumes "market_sentiment svc self period = Inr s"
  shows "\<exists>wavg frame. get_average_trading_volume_weekly svc period = Inr (wavg, frame)
         \<and> (\<exists>p v w. sentiment_votes self period wavg = [''neutral'', p, v, w]
               \<and> s = fuse_votes ''neutral'' p v w)"
proof -
  from assms obtain wavg frame where
    w: "get_average_trading_volume_weekly svc period = Inr (wavg, frame)"
    and s: "(case sentiment_votes self period wavg of
               [a, b, c, d] \<Rightarrow> Inr (fuse_votes a b c d) | _ \<Rightarrow> Inl IndexError) = Inr s"
    by (auto simp: market_sentiment_def split: if_splits sum.splits prod.splits)
  from sentiment_votes_shape[of self period wavg] obtain p v w' where
    sh: "sentiment_votes self period wavg = [''neutral'', p, v, w']" by blast
  with s have "s = fuse_votes ''neutral'' p v w'" by simp
  with w sh show ?thesis by blast
qed

text \<open>
  Claim C10. \<^verbatim>\<open>get_funding_rate\<close> returns 0.01 for every symbol and period, so the
  funding vote is "neutral" whatever the inputs: of the four votes of \<^verbatim>\<open>market_sentiment\<close>
  at most three are directional, neither count can reach 4, and every sentiment the method
  returns is the fusion of a neutral funding vote with the other three votes, so it does not
  depend on any funding-rate data.
\<close>

theorem funding_vote_always_neutral:
  "get_funding_rate symb period = 0.01
   \<and> funding_vote (get_funding_rate symb period) = ''neutral''
   \<and> hd (sentiment_votes self period wavg) = ''neutral''
   \<and> length (sentiment_votes self period wavg) = 4
   \<and> length (filter directional (sentiment_votes self period wavg)) \<le> 3
   \<and> bullish_count (sentiment_votes self period wavg) \<le> 3
   \<and> bearish_count (sentiment_votes self period wavg) \<le> 3
   \<and> (\<forall>s. market_sentiment svc self period = Inr s \<longrightarrow>
         (\<exists>wavg' p v w. s = fuse_votes ''neutral'' p v w
            \<and> sentiment_votes self period wavg' = [''neutral'', p, v, w]))"
proof -
  obtain p v w where sh: "sentiment_votes self period wavg = [''neutral'', p, v, w]"
    using sentiment_votes_shape by blast
  have d: "\<not> directional ''neutral''" by (simp add: directional_def)
  have 1: "length (filter directional (sentiment_votes self period wavg)) \<le> 3"
    unfolding sh using d length_filter_le[of directional "[p, v, w]"] by simp
  have 2: "\<forall>s. market_sentiment svc self period = Inr s \<longrightarrow>
         (\<exists>wavg' p v w. s = fuse_votes ''neutral'' p v w
            \<and> sentiment_votes self period wavg' = [''neutral'', p, v, w])"
    using market_sentiment_Inr by blast
  show ?thesis
    using 1 2 bullish_count_neutral_le[of p v w] bearish_count_neutral_le[of p v w]
    by (simp add: sh funding_vote_neutral) (simp add: get_funding_rate_def)
qed

lemma flat_any: "array_any [unit_candle]"
  by (simp add: array_any_def candle_truthy_def unit_candle_def)

lemma flat_8h: "get_8h_variation flat_service period = ([''1H''], Inr (Finite 0, [unit_candle]))"
  by (simp add: get_8h_variation_def flat_service_def flat_any Let_def py_truediv_def)
     (simp add: unit_candle_def)

lemma flat_10m: "get_10m_variation flat_service period = Inr (Finite 0, [unit_candle])"
  by (simp add: get_10m_variation_def flat_service_def flat_any Let_def dropna_close_def)
     (simp add: unit_candle_def)

lemma flat_vol_weekly: "get_average_trading_volume_weekly flat_service period = Inr (Finite 1, [unit_candle])"
  by (simp add: get_average_trading_volume_weekly_def flat_service_def flat_any Let_def series_mean_def)
     (simp add: unit_candle_def)

lemma example_votes: "sentiment_votes example_chart period (Finite 1) = [''neutral'', ''bullish'', ''stable'', ''optimistic'']"
  by (simp add: sentiment_votes_def example_chart_def Let_def funding_vote_neutral price_vote_def
       volatility_vote_def volume_vote_def np_gt_def)

lemma example_sentiment: "market_sentiment flat_service example_chart 0 = Inr ''bullish''"
  by (simp add: market_sentiment_def flat_8h flat_10m flat_vol_weekly example_votes)
     (simp add: example_chart_def fuse_votes_def final_sentiment_def bullish_count_def bearish_count_def)

theorem funding_vote_always_neutral_witness:
  "market_sentiment flat_service example_chart 0 = Inr ''bullish''
   \<and> (\<exists>wavg' p v w. ''bullish'' = fuse_votes ''neutral'' p v w
            \<and> sentiment_votes example_chart 0 wavg' = [''neutral'', p, v, w])
   \<and> funding_vote (get_funding_rate ''BTCUSDT'' 0) = ''neutral''
   \<and> length (filter directional (sentiment_votes example_chart 0 (Finite 1))) \<le> 3"
  using funding_vote_always_neutral[of "''BTCUSDT''" 0 example_chart "Finite 1" flat_service]
    example_sentiment
  by blast

section \<open>Properties of the volatility index\<close>

lemma length_log_returns: "length (log_returns closes) = length closes - 1"
  by (cases closes) (simp_all add: log_returns_def)

lemma get_volatility_index_populated:
  "\<exists>r. get_volatility_index (Some df) = Inr r"
  by (simp add: get_volatility_index_def Let_def)

text \<open>
  Claim C9. With no frame stored in \<^verbatim>\<open>self.df10m\<close>, \<^verbatim>\<open>get_volatility_index\<close> raises
  (\<^verbatim>\<open>ValueError\<close>); with a frame stored it never raises, and when the frame yields fewer than
  2 log-returns after the missing and the non-positive closes are dropped (that is, fewer than
  3 such closes) it returns \<^verbatim>\<open>None\<close>. The two outcomes are different values.
\<close>

theorem get_volatility_index_sequencing:
  "get_volatility_index None = Inl ValueError
   \<and> (\<forall>df. \<exists>r. get_volatility_index (Some df) = Inr r)
   \<and> (\<forall>df :: candle list. length (log_returns (filter (\<lambda>c. c > 0) (List.map_filter close df))) < 2
          \<longrightarrow> get_volatility_index (Some df) = Inr None)
   \<and> (\<forall>df :: candle list. length (filter (\<lambda>c. c > 0) (List.map_filter close df)) < 3
          \<longrightarrow> get_volatility_index (Some df) = Inr None)
   \<and> Inl ValueError \<noteq> (Inr None :: py_error + pyfloat option)"
proof (intro conjI allI impI)
  show "get_volatility_index None = Inl ValueError"
    by (simp add: get_volatility_index_def)
next
  fix df show "\<exists>r. get_volatility_index (Some df) = Inr r"
    by (rule get_volatility_index_populated)
next
  fix df :: "candle list"
  assume "length (log_returns (filter (\<lambda>c. c > 0) (List.map_filter close df))) < 2"
  then show "get_volatility_index (Some df) = Inr None"
    by (simp add: get_volatility_index_def Let_def)
next
  fix df :: "candle list"
  assume "length (filter (\<lambda>c. c > 0) (List.map_filter close df)) < 3"
  then have "length (log_returns (filter (\<lambda>c. c > 0) (List.map_filter close df))) < 2"
    by (simp add: length_log_returns)
  then show "get_volatility_index (Some df) = Inr None"
    by (simp add: get_volatility_index_def Let_def)
next
  show "Inl ValueError \<noteq> (Inr None :: py_error + pyfloat option)" by simp
qed

theorem get_volatility_index_sequencing_witness:
  "length (filter (\<lambda>c. c > 0) (List.map_filter close [unit_candle, unit_candle])) < 3
   \<and> length (log_returns (filter (\<lambda>c. c > 0) (List.map_filter close [unit_candle, unit_candle]))) < 2
   \<and> get_volatility_index (Some [unit_candle, unit_candle]) = Inr None
   \<and> get_volatility_index None = Inl ValueError"
proof -
  have h: "length (filter (\<lambda>c. c > 0) (List.map_filter close [unit_candle, unit_candle])) < 3"
    by (simp add: unit_candle_def)
  have h2: "length (log_returns (filter (\<lambda>c. c > 0) (List.map_filter close [unit_candle, unit_candle]))) < 2"
    by (simp add: unit_candle_def log_returns_def)
  from get_volatility_index_sequencing h h2 show ?thesis by blast
qed

section \<open>Properties of the short-horizon variation\<close>

lemma array_any_nonempty: "array_any arr \<Longrightarrow> arr \<noteq> []"
  by (auto simp: array_any_def)

lemma two_bar_any: "array_any [bar1, bar2]"
  by (simp add: array_any_def candle_truthy_def bar1_def)

text \<open>
  Claim C6 as stated fails on an empty fetch: no valid point remains, and the method raises
  instead of returning 0.0.
\<close>

theorem get_10m_variation_empty_counterexample:
  "length (dropna_close (empty_service ''1m'' 0 (0 + 10 * 60 * 1000))) < 2
   \<and> get_10m_variation empty_service 0 = Inl PyException"
  by (simp add: get_10m_variation_def empty_service_def dropna_close_def array_any_def)

text \<open>
  Claim C6, amended. \<^verbatim>\<open>get_10m_variation\<close> raises when the fetched series has no non-zero
  entry, in particular when it is empty. Otherwise, after the rows with a missing close are
  discarded: with fewer than 2 rows left it returns 0.0; with at least 2 rows left and a
  non-zero minimum low it returns (open of the first row left - minimum low of the rows left)
  / minimum low.
\<close>

theorem get_10m_variation_cases:
  "(\<not> array_any (svc ''1m'' period (period + 10 * 60 * 1000))
      \<longrightarrow> get_10m_variation svc period = Inl PyException)
   \<and> (array_any (svc ''1m'' period (period + 10 * 60 * 1000))
        \<and> length (dropna_close (svc ''1m'' period (period + 10 * 60 * 1000))) < 2
      \<longrightarrow> get_10m_variation svc period
            = Inr (Finite 0, dropna_close (svc ''1m'' period (period + 10 * 60 * 1000))))
   \<and> (array_any (svc ''1m'' period (period + 10 * 60 * 1000))
        \<and> 2 \<le> length (dropna_close (svc ''1m'' period (period + 10 * 60 * 1000)))
        \<and> Min (low ` set (dropna_close (svc ''1m'' period (period + 10 * 60 * 1000)))) \<noteq> 0
      \<longrightarrow> get_10m_variation svc period
            = Inr (Finite ((open_price (hd (dropna_close (svc ''1m'' period (period + 10 * 60 * 1000))))
                            - Min (low ` set (dropna_close (svc ''1m'' period (period + 10 * 60 * 1000)))))
                           / Min (low ` set (dropna_close (svc ''1m'' period (period + 10 * 60 * 1000))))),
                   dropna_close (svc ''1m'' period (period + 10 * 60 * 1000))))"
proof (intro conjI impI)
  let ?data = "svc ''1m'' period (period + 10 * 60 * 1000)"
  let ?df = "dropna_close ?data"
  show "get_10m_variation svc period = Inl PyException" if "\<not> array_any ?data"
    using that by (simp add: get_10m_variation_def Let_def)
  show "get_10m_variation svc period = Inr (Finite 0, ?df)"
    if "array_any ?data \<and> length ?df < 2"
    using that by (simp add: get_10m_variation_def Let_def)
  show "get_10m_variation svc period
          = Inr (Finite ((open_price (hd ?df) - Min (low ` set ?df)) / Min (low ` set ?df)), ?df)"
    if h: "array_any ?data \<and> 2 \<le> length ?df \<and> Min (low ` set ?df) \<noteq> 0"
  proof -
    from h have "map low ?df \<noteq> []" by auto
    then have m: "min_list (map low ?df) = Min (low ` set ?df)"
      using min_list_Min[of "map low ?df"] by simp
    from h have n: "\<not> length ?df < 2" by simp
    show ?thesis
      unfolding get_10m_variation_def Let_def m py_truediv_def
      using h n by simp
  qed
qed

theorem get_10m_variation_cases_witness:
  "\<not> array_any (empty_service ''1m'' 0 (0 + 10 * 60 * 1000))
   \<and> get_10m_variation empty_service 0 = Inl PyException
   \<and> array_any (flat_service ''1m'' 0 (0 + 10 * 60 * 1000))
   \<and> length (dropna_close (flat_service ''1m'' 0 (0 + 10 * 60 * 1000))) < 2
   \<and> get_10m_variation flat_service 0 = Inr (Finite 0, [unit_candle])
   \<and> array_any (two_bar_service ''1m'' 0 (0 + 10 * 60 * 1000))
   \<and> 2 \<le> length (dropna_close (two_bar_service ''1m'' 0 (0 + 10 * 60 * 1000)))
   \<and> Min (low ` set (dropna_close (two_bar_service ''1m'' 0 (0 + 10 * 60 * 1000)))) \<noteq> 0
   \<and> get_10m_variation two_bar_service 0 = Inr (Finite ((100 - 90) / 90), [bar1, bar2])"
proof -
  have e: "\<not> array_any (empty_service ''1m'' 0 (0 + 10 * 60 * 1000))"
    by (simp add: empty_service_def array_any_def)
  have f: "array_any (flat_service ''1m'' 0 (0 + 10 * 60 * 1000))"
     "length (dropna_close (flat_service ''1m'' 0 (0 + 10 * 60 * 1000))) < 2"
     "dropna_close (flat_service ''1m'' 0 (0 + 10 * 60 * 1000)) = [unit_candle]"
    using flat_any by (simp_all add: flat_service_def dropna_close_def) (simp add: unit_candle_def)+
  have d: "dropna_close (two_bar_service ''1m'' 0 (0 + 10 * 60 * 1000)) = [bar1, bar2]"
    by (simp add: two_bar_service_def dropna_close_def bar1_def bar2_def)
  have t: "array_any (two_bar_service ''1m'' 0 (0 + 10 * 60 * 1000))"
     "2 \<le> length (dropna_close (two_bar_service ''1m'' 0 (0 + 10 * 60 * 1000)))"
     "Min (low ` set (dropna_close (two_bar_service ''1m'' 0 (0 + 10 * 60 * 1000)))) = 90"
     "open_price (hd (dropna_close (two_bar_service ''1m'' 0 (0 + 10 * 60 * 1000)))) = 100"
    unfolding d by (simp_all add: two_bar_service_def two_bar_any) (simp_all add: bar1_def bar2_def)
  have t3: "Min (low ` set (dropna_close (two_bar_service ''1m'' 0 (0 + 10 * 60 * 1000)))) \<noteq> 0"
    using t(3) by simp
  from get_10m_variation_cases[of empty_service 0] e
  have 1: "get_10m_variation empty_service 0 = Inl PyException" by blast
  from get_10m_variation_cases[of flat_service 0] f
  have 2: "get_10m_variation flat_service 0 = Inr (Finite 0, [unit_candle])" by simp
  from get_10m_variation_cases[of two_bar_service 0] t(1,2) t3
  have "get_10m_variation two_bar_service 0
            = Inr (Finite ((open_price (hd (dropna_close (two_bar_service ''1m'' 0 (0 + 10 * 60 * 1000))))
                            - Min (low ` set (dropna_close (two_bar_service ''1m'' 0 (0 + 10 * 60 * 1000)))))
                           / Min (low ` set (dropna_close (two_bar_service ''1m'' 0 (0 + 10 * 60 * 1000))))),
                   dropna_close (two_bar_service ''1m'' 0 (0 + 10 * 60 * 1000)))" by blast
  then have 3: "get_10m_variation two_bar_service 0 = Inr (Finite ((100 - 90) / 90), [bar1, bar2])"
    unfolding d by (simp add: bar1_def bar2_def)
  show ?thesis using e 1 f(1,2) 2 t(1,2) t3 3 by blast
qed

section \<open>Lemmas on the medium-horizon variation\<close>

lemma stamped_any: "stamped arr \<Longrightarrow> array_any arr = (arr \<noteq> [])"
  by (cases arr) (auto simp: stamped_def array_any_def candle_truthy_def)

lemma get_8h_variation_value:
  assumes "array_any df" and "close (last df) = Some e" and "e \<noteq> 0"
    and "Min (low ` set df) \<noteq> 0"
  shows "(case df of
            [] \<Rightarrow> (fetched, Inl IndexError)
          | first_bar # rest \<Rightarrow>
              (let df8h = df;
                   start_price = Finite (open_price first_bar);
                   regression = Finite (min_list (map low df8h));
                   end_price = of_opt (close (last df8h))
               in (fetched,
                   (case py_truediv (np_sub start_price end_price) end_price of
                      Inl e \<Rightarrow> Inl e
                    | Inr q \<Rightarrow>
                        (let volatility = np_mul q (Finite 100)
                         in (case py_truediv (np_sub start_price regression) regression of
                               Inl e \<Rightarrow> Inl e
                             | Inr q' \<Rightarrow> Inr (volatility, df8h)))))))
         = (fetched, Inr (Finite ((open_price (hd df) - e) / e * 100), df))"
proof (cases df)
  case Nil
  with assms(1) show ?thesis by (simp add: array_any_def)
next
  case (Cons first_bar rest)
  then have "map low df \<noteq> []" by simp
  then have m: "min_list (map low df) = Min (low ` set df)"
    using min_list_Min[of "map low df"] by simp
  have l: "close (last (first_bar # rest)) = Some e" using assms(2) Cons by simp
  have m': "min_list (low first_bar # map low rest) = Min (low ` set df)"
    using m Cons by simp
  show ?thesis
    using assms(3,4) by (simp add: Cons Let_def l m' py_truediv_def del: min_list.simps last.simps)
qed

lemma get_8h_variation_fetched:
  "fst (get_8h_variation svc period)
     = (if array_any (svc ''1H'' period (period + 8 * 60 * 60 * 1000)) then [''1H'']
        else [''1H'', ''4H''])"
  by (simp add: get_8h_variation_def Let_def split: list.splits)

lemma two_bar_facts:
  "stamped [bar1, bar2]" "[bar1, bar2] \<noteq> []" "close (last [bar1, bar2]) = Some 110"
  "Min (low ` set [bar1, bar2]) \<noteq> 0" "open_price (hd [bar1, bar2]) = 100"
  by (simp_all add: stamped_def bar1_def bar2_def)

section \<open>Lemmas on the chunk walk\<close>

lemma fetch_loop_Cons:
  "fetch_loop session symb gran s e i (call # calls) pS pE acc =
     (let params = \<lparr>symbol = symb, granularity = gran,
                     startTime = (if s \<noteq> 0 then Some (start_time call) else pS),
                     endTime = (if e \<noteq> 0 then Some (end_time call) else pE)\<rparr>;
          r = session i params
      in if stops_walk e r then ([params], acc @ batch_of r)
         else (params # fst (fetch_loop session symb gran s e (Suc i) calls
                               (Some (timestamp (last (data r)) + 1)) (endTime params)
                               (acc @ data r)),
               snd (fetch_loop session symb gran s e (Suc i) calls
                               (Some (timestamp (last (data r)) + 1)) (endTime params)
                               (acc @ data r))))"
  by (auto simp: Let_def stops_walk_def batch_of_def split: prod.splits)

lemma fetch_loop_length:
  "length (fst (fetch_loop session symb gran s e i calls pS pE acc)) \<le> length calls"
proof (induction calls arbitrary: i pS pE acc)
  case Nil
  show ?case by simp
next
  case (Cons call calls)
  show ?case
    unfolding fetch_loop_Cons Let_def using Cons.IH by (simp del: fetch_loop.simps)
qed

lemma fetch_loop_requests:
  "j < length (fst (fetch_loop session symb gran s e i calls pS pE acc)) \<Longrightarrow>
     symbol (fst (fetch_loop session symb gran s e i calls pS pE acc) ! j) = symb
     \<and> granularity (fst (fetch_loop session symb gran s e i calls pS pE acc) ! j) = gran
     \<and> (s \<noteq> 0 \<longrightarrow> startTime (fst (fetch_loop session symb gran s e i calls pS pE acc) ! j)
                      = Some (start_time (calls ! j)))
     \<and> (e \<noteq> 0 \<longrightarrow> endTime (fst (fetch_loop session symb gran s e i calls pS pE acc) ! j)
                      = Some (end_time (calls ! j)))"
proof (induction calls arbitrary: i pS pE acc j)
  case Nil
  then show ?case by simp
next
  case (Cons call calls)
  show ?case
  proof (cases j)
    case 0
    then show ?thesis unfolding fetch_loop_Cons Let_def by (simp del: fetch_loop.simps)
  next
    case (Suc k)
    with Cons.prems show ?thesis
      unfolding fetch_loop_Cons Let_def
      using Cons.IH[of k]
      by (simp del: fetch_loop.simps split: if_splits)
  qed
qed

lemma fetch_loop_array:
  "snd (fetch_loop session symb gran s e i calls pS pE acc) =
     acc @ concat (map (\<lambda>j. batch_of (session (i + j)
                          (fst (fetch_loop session symb gran s e i calls pS pE acc) ! j)))
                    [0..<length (fst (fetch_loop session symb gran s e i calls pS pE acc))])"
proof (induction calls arbitrary: i pS pE acc)
  case Nil
  show ?case by simp
next
  case (Cons call calls)
  define params where "params = \<lparr>symbol = symb, granularity = gran,
                     startTime = (if s \<noteq> 0 then Some (start_time call) else pS),
                     endTime = (if e \<noteq> 0 then Some (end_time call) else pE)\<rparr>"
  define r where "r = session i params"
  define rest where "rest = fetch_loop session symb gran s e (Suc i) calls
                               (Some (timestamp (last (data r)) + 1)) (endTime params)
                               (acc @ data r)"
  have step: "fetch_loop session symb gran s e i (call # calls) pS pE acc =
      (if stops_walk e r then ([params], acc @ batch_of r) else (params # fst rest, snd rest))"
    unfolding fetch_loop_Cons Let_def params_def r_def rest_def by simp
  show ?case
  proof (cases "stops_walk e r")
    case True
    then show ?thesis by (simp add: step r_def del: fetch_loop.simps)
  next
    case False
    then have b: "batch_of r = data r" by (auto simp: stops_walk_def batch_of_def)
    have ih: "snd rest = (acc @ data r) @ concat (map (\<lambda>j. batch_of (session (Suc i + j) (fst rest ! j)))
                    [0..<length (fst rest)])"
      unfolding rest_def by (rule Cons.IH)
    show ?thesis
      using False
      by (simp add: step ih b r_def[symmetric] map_upt_Suc del: fetch_loop.simps upt_Suc)
  qed
qed

lemma fetch_loop_stops:
  "j < length (fst (fetch_loop session symb gran s e i calls pS pE acc)) \<Longrightarrow>
     stops_walk e (session (i + j) (fst (fetch_loop session symb gran s e i calls pS pE acc) ! j))
     \<Longrightarrow> Suc j = length (fst (fetch_loop session symb gran s e i calls pS pE acc))"
proof (induction calls arbitrary: i pS pE acc j)
  case Nil
  then show ?case by simp
next
  case (Cons call calls)
  show ?case
  proof (cases j)
    case 0
    with Cons.prems show ?thesis
      unfolding fetch_loop_Cons Let_def by (simp del: fetch_loop.simps split: if_splits)
  next
    case (Suc k)
    with Cons.prems show ?thesis
      unfolding fetch_loop_Cons Let_def
      using Cons.IH[of k "Suc i"]
      by (simp del: fetch_loop.simps split: if_splits)
  qed
qed

lemma fetch_loop_early:
  "length (fst (fetch_loop session symb gran s e i calls pS pE acc)) < length calls \<Longrightarrow>
     fst (fetch_loop session symb gran s e i calls pS pE acc) \<noteq> []
     \<and> stops_walk e (session (i + length (fst (fetch_loop session symb gran s e i calls pS pE acc)) - 1)
          (last (fst (fetch_loop session symb gran s e i calls pS pE acc))))"
proof (induction calls arbitrary: i pS pE acc)
  case Nil
  then show ?case by simp
next
  case (Cons call calls)
  from Cons.prems show ?case
    unfolding fetch_loop_Cons Let_def
    using Cons.IH[of "Suc i"]
    by (auto simp del: fetch_loop.simps split: if_splits)
qed

lemma convert_granularity_to_ms_pos:
  "convert_granularity_to_ms gran = Inr g \<Longrightarrow> 0 < g"
  by (auto simp: convert_granularity_to_ms_def split: if_splits)

lemma calculate_api_calls_total:
  "g \<noteq> 0 \<Longrightarrow> \<exists>calls. calculate_api_calls s e g = Inr calls"
  by (simp add: calculate_api_calls_def Let_def)

lemma two_page_calls:
  "calculate_api_calls 60000 120060000 60000 =
     Inr [\<lparr>start_time = 60000, end_time = 60060000, candles = 1000\<rparr>,
          \<lparr>start_time = 60120000, end_time = 120120000, candles = 1000\<rparr>]"
proof -
  have a: "calls_loop 60000 2000 60000 [] =
      \<lparr>start_time = 60000, end_time = 60060000, candles = 1000\<rparr> # calls_loop 60120000 1000 60000 []"
    using calls_loop_step[of 2000 60000 60000] by (simp add: max_candles_per_call_def)
  have b: "calls_loop 60120000 1000 60000 [] =
      \<lparr>start_time = 60120000, end_time = 120120000, candles = 1000\<rparr> # calls_loop 120180000 0 60000 []"
    using calls_loop_step[of 1000 60120000 60000] by (simp add: max_candles_per_call_def)
  have c: "calls_loop 120180000 0 60000 [] = []" by (simp add: calls_loop_done)
  show ?thesis by (simp add: calculate_api_calls_def a b c)
qed

lemma two_page_fetch:
  "get_candlestick_chart two_page_session ''BTCUSDT'' ''1m'' 60000 120060000 = Inr [bar1, bar2]"
  by (simp add: get_candlestick_chart_def get_candlestick_chart_log_def
        convert_granularity_to_ms_def two_page_calls two_page_session_def Let_def)

section \<open>Properties of the report\<close>

lemma finite_or_none_sanitize_float: "finite_or_none (sanitize_value (PyFloat x))"
  by (cases x) simp_all

lemma finite_or_none_sanitize_opt: "finite_or_none (sanitize_value (float_or_none x))"
proof (cases x)
  case None
  then show ?thesis by simp
next
  case (Some a)
  then show ?thesis using finite_or_none_sanitize_float[of a] by (simp del: sanitize_value.simps)
qed

lemma sanitized_fields:
  "map_of (sanitize (build_result p h8 h10 d w idx avg s)) ''8h_variation''
     = Some (sanitize_value (PyFloat h8))"
  "map_of (sanitize (build_result p h8 h10 d w idx avg s)) ''10m_variation''
     = Some (sanitize_value (PyFloat h10))"
  "map_of (sanitize (build_result p h8 h10 d w idx avg s)) ''volatility_index''
     = Some (sanitize_value (float_or_none idx))"
  "map_of (sanitize (build_result p h8 h10 d w idx avg s)) ''average_trading_volume''
     = Some (sanitize_value (PyFloat avg))"
  by (simp_all add: sanitize_def build_result_def del: sanitize_value.simps)

lemma set_analysis_Inr:
  assumes "set_analysis fl strftime svc symb period = Inr report"
  shows "\<exists>p h8 h10 d w idx avg s. report = sanitize (build_result p h8 h10 d w idx avg s)"
  using assms
  by (auto simp: set_analysis_def Let_def split: sum.splits prod.splits) blast

text \<open>
  Claim C3. In every report \<^verbatim>\<open>set_analysis\<close> returns, each of the four numeric fields
  (8h variation, 10m variation, volatility index, average trading volume) is a finite
  number or \<^verbatim>\<open>None\<close>. Whatever values were computed, the field holds \<^verbatim>\<open>None\<close> when the
  computed value is \<^verbatim>\<open>nan\<close> or infinite and the computed value otherwise.
\<close>

theorem set_analysis_sanitized:
  "(\<forall>report. set_analysis fl strftime svc symb period = Inr report \<longrightarrow>
      (\<forall>key \<in> set numeric_keys. \<exists>v. map_of report key = Some v \<and> finite_or_none v))
   \<and> map_of (sanitize (build_result p h8 h10 d w idx avg s)) ''8h_variation''
       = Some (if isna h8 \<or> isinf h8 then PyNone else PyFloat h8)
   \<and> map_of (sanitize (build_result p h8 h10 d w idx avg s)) ''10m_variation''
       = Some (if isna h10 \<or> isinf h10 then PyNone else PyFloat h10)
   \<and> map_of (sanitize (build_result p h8 h10 d w idx avg s)) ''volatility_index''
       = Some (case idx of None \<Rightarrow> PyNone
               | Some x \<Rightarrow> if isna x \<or> isinf x then PyNone else PyFloat x)
   \<and> map_of (sanitize (build_result p h8 h10 d w idx avg s)) ''average_trading_volume''
       = Some (if isna avg \<or> isinf avg then PyNone else PyFloat avg)"
proof (intro conjI allI impI ballI)
  fix report key
  assume r: "set_analysis fl strftime svc symb period = Inr report" and k: "key \<in> set numeric_keys"
  from set_analysis_Inr[OF r] obtain p h8 h10 d w idx avg s
    where rep: "report = sanitize (build_result p h8 h10 d w idx avg s)" by blast
  from k have "key = ''8h_variation'' \<or> key = ''10m_variation'' \<or> key = ''volatility_index''
      \<or> key = ''average_trading_volume''"
    by (simp add: numeric_keys_def)
  then show "\<exists>v. map_of report key = Some v \<and> finite_or_none v"
    unfolding rep
    using sanitized_fields[of p h8 h10 d w idx avg s]
      finite_or_none_sanitize_float finite_or_none_sanitize_opt
    by metis
qed (simp_all add: sanitized_fields split: option.split)

lemma gap_any: "array_any [bar1, bar_gap]" "array_any [bar1, bar2]"
  by (simp_all add: array_any_def candle_truthy_def bar1_def)

lemma gap_8h: "get_8h_variation gap_service 0 = ([''1H''], Inr (NaN, [bar1, bar_gap]))"
  by (simp add: get_8h_variation_def gap_service_def gap_any Let_def py_truediv_def)
     (simp add: bar1_def bar_gap_def)

lemma gap_10m: "get_10m_variation gap_service 0 = Inr (Finite ((100 - 90) / 90), [bar1, bar2])"
proof -
  have d: "dropna_close [bar1, bar2] = [bar1, bar2]"
    by (simp add: dropna_close_def bar1_def bar2_def)
  show ?thesis
    by (simp add: get_10m_variation_def gap_service_def gap_any Let_def d py_truediv_def)
       (simp add: bar1_def bar2_def)
qed

lemma exact_simps:
  "rolling_mean exact = rolling_mean_last"
  "pct_change_std exact = pct_volatility"
  "rel_diff_below exact a b t = np_lt (np_div (np_abs (np_sub a b)) b) (Finite t)"
  "pct_diff exact a b = np_mul (np_div (np_sub a b) b) (Finite 100)"
  by (simp_all add: exact_def)

lemma two_bar_frame:
  "dropna_close [bar1, bar2] = [bar1, bar2]"
  "sort_key timestamp [bar1, bar2] = [bar1, bar2]"
  "to_datetime_ok [bar1, bar2]"
  "map close [bar1, bar2] = [Some 105, Some 110]"
  "timestamp bar1 = 60000" "timestamp bar2 = 120000"
  by (simp_all add: dropna_close_def sort_key_def to_datetime_ok_def datetime_bound_ms_def
        bar1_def bar2_def)

lemma two_bar_daily:
  assumes "svc ''15m'' (period - 24 * 60 * 60 * 1000) period = [bar1, bar2]"
  shows "get_daily_trend exact svc period = Inr (''neutral'', Some [bar1, bar2])"
  using assms
  by (simp add: get_daily_trend_def gap_any Let_def two_bar_frame exact_simps
        rolling_mean_last_def daily_cascade_def del: list.map)

lemma gap_daily: "get_daily_trend exact gap_service 0 = Inr (''neutral'', Some [bar1, bar2])"
  by (rule two_bar_daily) (simp add: gap_service_def)

lemma gap_weekly: "get_weekly_trends exact gap_service 0 = Inr (''volatile'', [bar1, bar_gap])"
proof -
  have c: "map close [bar1, bar_gap] = [Some 105, None]"
    by (simp add: bar1_def bar_gap_def)
  have t: "to_datetime_ok [bar1, bar_gap]"
    by (simp add: to_datetime_ok_def datetime_bound_ms_def bar1_def bar_gap_def)
  have p: "pct_change [Some 105, None] = [NaN, Finite 0]"
    by (simp add: pct_change_def)
  have v: "pct_volatility [Some 105, None] = NaN"
    unfolding pct_volatility_def p by (simp add: series_std_def)
  show ?thesis
    unfolding get_weekly_trends_def gap_service_def Let_def
    by (simp add: gap_any c t v exact_simps rolling_mean_last_def weekly_cascade_def np_gt_def
          del: list.map)
qed

lemma gap_volume: "get_average_trading_volume gap_service 0 = Inr (Finite 6, [bar1, bar_gap])"
  by (simp add: get_average_trading_volume_def gap_service_def gap_any Let_def series_mean_def)
     (simp add: bar1_def bar_gap_def)

lemma gap_vol_weekly:
  "get_average_trading_volume_weekly gap_service 0 = Inr (Finite 6, [bar1, bar2])"
  by (simp add: get_average_trading_volume_weekly_def gap_service_def gap_any Let_def
        series_mean_def)
     (simp add: bar1_def bar2_def)

lemma gap_index: "get_volatility_index (Some [bar1, bar2]) = Inr None"
  by (simp add: get_volatility_index_def Let_def log_returns_def bar1_def bar2_def)

lemma gap_sentiment:
  "market_sentiment gap_service
     \<lparr>chart_symbol = ''BTCUSDT'', df8h = Some [bar1, bar_gap], df10m = Some [bar1, bar2],
       dfdaily = Some [bar1, bar_gap], dfweekly = Some [bar1, bar_gap],
       daily_trend = ''neutral'', weekly_trend = ''volatile'', volatility_index = None,
       average_trading_volume = Finite 6\<rparr> 0 = Inr ''mixed''"
  by (simp add: market_sentiment_def gap_8h gap_10m gap_vol_weekly sentiment_votes_def Let_def
        funding_vote_neutral price_vote_def volatility_vote_def volume_vote_def np_gt_def
        fuse_votes_def final_sentiment_def bullish_count_def bearish_count_def)

lemma gap_report:
  "set_analysis exact strftime gap_service ''BTCUSDT'' 0 =
     Inr [(''description'', PyList []),
          (''period'', PyStr (strftime 0)),
          (''8h_variation'', PyNone),
          (''10m_variation'', PyFloat (Finite ((100 - 90) / 90))),
          (''daily_trend'', PyStr ''neutral''),
          (''weekly_trend'', PyStr ''volatile''),
          (''volatility_index'', PyNone),
          (''average_trading_volume'', PyFloat (Finite 6)),
          (''market_sentiment'', PyStr ''mixed'')]"
  by (simp add: set_analysis_def gap_8h gap_10m gap_daily gap_weekly gap_volume gap_index
        gap_sentiment build_result_def sanitize_def)

theorem set_analysis_sanitized_witness:
  "set_analysis exact epoch_text gap_service ''BTCUSDT'' 0 =
     Inr [(''description'', PyList []),
                 (''period'', PyStr (epoch_text 0)),
                 (''8h_variation'', PyNone),
                 (''10m_variation'', PyFloat (Finite ((100 - 90) / 90))),
                 (''daily_trend'', PyStr ''neutral''),
                 (''weekly_trend'', PyStr ''volatile''),
                 (''volatility_index'', PyNone),
                 (''average_trading_volume'', PyFloat (Finite 6)),
                 (''market_sentiment'', PyStr ''mixed'')]
   \<and> snd (get_8h_variation gap_service 0) = Inr (NaN, [bar1, bar_gap])
   \<and> (\<exists>v. map_of [(''description'', PyList []),
                 (''period'', PyStr (epoch_text 0)),
                 (''8h_variation'', PyNone),
                 (''10m_variation'', PyFloat (Finite ((100 - 90) / 90))),
                 (''daily_trend'', PyStr ''neutral''),
                 (''weekly_trend'', PyStr ''volatile''),
                 (''volatility_index'', PyNone),
                 (''average_trading_volume'', PyFloat (Finite 6)),
                 (''market_sentiment'', PyStr ''mixed'')] ''8h_variation'' = Some v \<and> finite_or_none v)
   \<and> (\<exists>v. map_of [(''description'', PyList []),
                 (''period'', PyStr (epoch_text 0)),
                 (''8h_variation'', PyNone),
                 (''10m_variation'', PyFloat (Finite ((100 - 90) / 90))),
                 (''daily_trend'', PyStr ''neutral''),
                 (''weekly_trend'', PyStr ''volatile''),
                 (''volatility_index'', PyNone),
                 (''average_trading_volume'', PyFloat (Finite 6)),
                 (''market_sentiment'', PyStr ''mixed'')] ''10m_variation'' = Some v \<and> finite_or_none v)
   \<and> (\<exists>v. map_of [(''description'', PyList []),
                 (''period'', PyStr (epoch_text 0)),
                 (''8h_variation'', PyNone),
                 (''10m_variation'', PyFloat (Finite ((100 - 90) / 90))),
                 (''daily_trend'', PyStr ''neutral''),
                 (''weekly_trend'', PyStr ''volatile''),
                 (''volatility_index'', PyNone),
                 (''average_trading_volume'', PyFloat (Finite 6)),
                 (''market_sentiment'', PyStr ''mixed'')] ''volatility_index'' = Some v \<and> finite_or_none v)
   \<and> (\<exists>v. map_of [(''description'', PyList []),
                 (''period'', PyStr (epoch_text 0)),
                 (''8h_variation'', PyNone),
                 (''10m_variation'', PyFloat (Finite ((100 - 90) / 90))),
                 (''daily_trend'', PyStr ''neutral''),
                 (''weekly_trend'', PyStr ''volatile''),
                 (''volatility_index'', PyNone),
                 (''average_trading_volume'', PyFloat (Finite 6)),
                 (''market_sentiment'', PyStr ''mixed'')] ''average_trading_volume'' = Some v \<and> finite_or_none v)"
proof -
  note r = gap_report[of epoch_text]
  have k: "''8h_variation'' \<in> set numeric_keys" "''10m_variation'' \<in> set numeric_keys"
    "''volatility_index'' \<in> set numeric_keys" "''average_trading_volume'' \<in> set numeric_keys"
    by (simp_all add: numeric_keys_def)
  from set_analysis_sanitized[of exact epoch_text gap_service "''BTCUSDT''" 0] r
  have a: "\<forall>key \<in> set numeric_keys. \<exists>v.
         map_of [(''description'', PyList []),
                 (''period'', PyStr (epoch_text 0)),
                 (''8h_variation'', PyNone),
                 (''10m_variation'', PyFloat (Finite ((100 - 90) / 90))),
                 (''daily_trend'', PyStr ''neutral''),
                 (''weekly_trend'', PyStr ''volatile''),
                 (''volatility_index'', PyNone),
                 (''average_trading_volume'', PyFloat (Finite 6)),
                 (''market_sentiment'', PyStr ''mixed'')] key = Some v
         \<and> finite_or_none v"
    by blast
  from a k(1) have 1: "\<exists>v. map_of [(''description'', PyList []),
                 (''period'', PyStr (epoch_text 0)),
                 (''8h_variation'', PyNone),
                 (''10m_variation'', PyFloat (Finite ((100 - 90) / 90))),
                 (''daily_trend'', PyStr ''neutral''),
                 (''weekly_trend'', PyStr ''volatile''),
                 (''volatility_index'', PyNone),
                 (''average_trading_volume'', PyFloat (Finite 6)),
                 (''market_sentiment'', PyStr ''mixed'')] ''8h_variation'' = Some v \<and> finite_or_none v" by (rule bspec)
  from a k(2) have 2: "\<exists>v. map_of [(''description'', PyList []),
                 (''period'', PyStr (epoch_text 0)),
                 (''8h_variation'', PyNone),
                 (''10m_variation'', PyFloat (Finite ((100 - 90) / 90))),
                 (''daily_trend'', PyStr ''neutral''),
                 (''weekly_trend'', PyStr ''volatile''),
                 (''volatility_index'', PyNone),
                 (''average_trading_volume'', PyFloat (Finite 6)),
                 (''market_sentiment'', PyStr ''mixed'')] ''10m_variation'' = Some v \<and> finite_or_none v" by (rule bspec)
  from a k(3) have 3: "\<exists>v. map_of [(''description'', PyList []),
                 (''period'', PyStr (epoch_text 0)),
                 (''8h_variation'', PyNone),
                 (''10m_variation'', PyFloat (Finite ((100 - 90) / 90))),
                 (''daily_trend'', PyStr ''neutral''),
                 (''weekly_trend'', PyStr ''volatile''),
                 (''volatility_index'', PyNone),
                 (''average_trading_volume'', PyFloat (Finite 6)),
                 (''market_sentiment'', PyStr ''mixed'')] ''volatility_index'' = Some v \<and> finite_or_none v" by (rule bspec)
  from a k(4) have 4: "\<exists>v. map_of [(''description'', PyList []),
                 (''period'', PyStr (epoch_text 0)),
                 (''8h_variation'', PyNone),
                 (''10m_variation'', PyFloat (Finite ((100 - 90) / 90))),
                 (''daily_trend'', PyStr ''neutral''),
                 (''weekly_trend'', PyStr ''volatile''),
                 (''volatility_index'', PyNone),
                 (''average_trading_volume'', PyFloat (Finite 6)),
                 (''market_sentiment'', PyStr ''mixed'')] ''average_trading_volume'' = Some v \<and> finite_or_none v" by (rule bspec)
  from r gap_8h 1 2 3 4 show ?thesis by (intro conjI) simp_all
qed

section \<open>Properties of the trend classifications\<close>

lemma rolling_mean_last_short: "length xs < n \<Longrightarrow> rolling_mean_last n xs = NaN"
  by (simp add: rolling_mean_last_def)

lemma get_daily_trend_cascade:
  assumes "array_any (daily_fetch svc period)"
    and "to_datetime_ok (dropna_close (daily_fetch svc period))"
    and "daily_frame svc period \<noteq> []"
  shows "get_daily_trend fl svc period =
     Inr (daily_cascade fl (of_opt (last (daily_closes svc period)))
            (rolling_mean fl 5 (daily_closes svc period))
            (rolling_mean fl 15 (daily_closes svc period))
            (pct_change_std fl (daily_closes svc period)),
          Some (daily_frame svc period))"
  using assms
  by (simp add: get_daily_trend_def Let_def daily_fetch_def daily_frame_def daily_closes_def)

lemma get_weekly_trends_cascade:
  assumes "array_any (weekly_frame svc period)"
    and "to_datetime_ok (weekly_frame svc period)"
  shows "get_weekly_trends fl svc period =
     Inr (weekly_cascade fl (weekly_close svc period) (weekly_ma fl 20 svc period)
            (weekly_ma fl 50 svc period) (weekly_change fl svc period)
            (weekly_volatility fl svc period),
          weekly_frame svc period)"
proof -
  from assms(1) obtain b bs where c: "svc ''1H'' period (period + 604800000) = b # bs"
    using array_any_nonempty
    by (cases "svc ''1H'' period (period + 604800000)") (auto simp: weekly_frame_def)
  from assms have a: "array_any (b # bs)" "to_datetime_ok (b # bs)"
    by (simp_all add: weekly_frame_def c)
  show ?thesis
    by (simp add: get_weekly_trends_def Let_def weekly_close_def weekly_ma_def
          weekly_change_def weekly_volatility_def weekly_frame_def c a del: last.simps)
qed

lemma two_bar_volatility: "pct_volatility [Some 105, Some 110] = NaN"
proof -
  have p: "pct_change [Some 105, Some 110] = [NaN, Finite (1 / 21)]"
    by (simp add: pct_change_def)
  show ?thesis unfolding pct_volatility_def p by (simp add: series_std_def)
qed

lemma two_bar_weekly:
  "get_weekly_trends exact two_bar_service 0 = Inr (''corrective'', [bar1, bar2])"
proof -
  have o: "open_price bar1 = 100" by (simp add: bar1_def)
  show ?thesis
    unfolding get_weekly_trends_def two_bar_service_def Let_def
    by (simp add: two_bar_any two_bar_frame two_bar_volatility o exact_simps
          rolling_mean_last_def weekly_cascade_def np_gt_def del: list.map)
qed

text \<open>
  The daily classification returns "neutral" whenever one of its moving averages is
  undefined, which is what the check before its cascade is for.
\<close>

lemma get_daily_trend_undefined:
  assumes "to_datetime_ok (dropna_close (daily_fetch svc period))"
    and "isna (rolling_mean fl 5 (daily_closes svc period))
         \<or> isna (rolling_mean fl 15 (daily_closes svc period))"
  shows "\<exists>frame. get_daily_trend fl svc period = Inr (''neutral'', frame)"
proof (cases "array_any (daily_fetch svc period) \<and> daily_frame svc period \<noteq> []")
  case True
  then show ?thesis
    using get_daily_trend_cascade[of svc period fl] assms
    by (auto simp: daily_cascade_def)
next
  case False
  then show ?thesis
    using assms(1)
    by (auto simp: get_daily_trend_def Let_def daily_fetch_def daily_frame_def)
qed

lemma get_daily_trend_short:
  assumes "to_datetime_ok (dropna_close (daily_fetch svc period))"
    and "length (daily_frame svc period) < 15"
  shows "\<exists>frame. get_daily_trend exact svc period = Inr (''neutral'', frame)"
proof -
  from assms(2) have "length (daily_closes svc period) < 15"
    by (simp add: daily_closes_def)
  then have "isna (rolling_mean exact 15 (daily_closes svc period))"
    by (simp add: exact_simps rolling_mean_last_short)
  with assms(1) show ?thesis
    using get_daily_trend_undefined[of svc period exact] by blast
qed

text \<open>
  Claim C8 holds of the daily classification and fails of the code of the weekly one. On a
  fetched series of two bars both moving averages of \<^verbatim>\<open>get_weekly_trends\<close> are undefined
  (\<^verbatim>\<open>nan\<close>) and it returns "corrective" where the claim says "neutral":
  \<^verbatim>\<open>get_weekly_trends\<close> has no check of its moving averages. \<^verbatim>\<open>get_daily_trend\<close>, which
  has one, returns "neutral" on the same series.
\<close>

theorem get_weekly_trends_two_bars:
  "weekly_frame two_bar_service 0 = [bar1, bar2]
   \<and> weekly_ma exact 20 two_bar_service 0 = NaN
   \<and> weekly_ma exact 50 two_bar_service 0 = NaN
   \<and> get_weekly_trends exact two_bar_service 0 = Inr (''corrective'', [bar1, bar2])
   \<and> daily_fetch two_bar_service 0 = [bar1, bar2]
   \<and> get_daily_trend exact two_bar_service 0 = Inr (''neutral'', Some [bar1, bar2])"
proof -
  have w: "weekly_frame two_bar_service 0 = [bar1, bar2]"
    by (simp add: weekly_frame_def two_bar_service_def)
  have d: "daily_fetch two_bar_service 0 = [bar1, bar2]"
    by (simp add: daily_fetch_def two_bar_service_def)
  have m: "weekly_ma exact 20 two_bar_service 0 = NaN" "weekly_ma exact 50 two_bar_service 0 = NaN"
    unfolding weekly_ma_def w exact_simps by (simp_all add: rolling_mean_last_def)
  have t: "get_daily_trend exact two_bar_service 0 = Inr (''neutral'', Some [bar1, bar2])"
    by (rule two_bar_daily) (simp add: two_bar_service_def)
  from w d m t two_bar_weekly show ?thesis by (intro conjI)
qed

lemma bar_at_simps:
  "timestamp (bar_at t c) = t" "close (bar_at t c) = Some c" "open_price (bar_at t c) = c"
  by (simp_all add: bar_at_def)

lemma bar_at_truthy: "t \<noteq> 0 \<Longrightarrow> candle_truthy (bar_at t c)"
  by (simp add: candle_truthy_def bar_at_def)

lemma choppy_any: "array_any choppy_series"
  by (simp add: array_any_def choppy_series_def bar_at_truthy)

lemma choppy_dropna: "dropna_close choppy_series = choppy_series"
  by (simp add: dropna_close_def choppy_series_def bar_at_simps)

lemma choppy_sorted: "sort_key timestamp choppy_series = choppy_series"
  by (rule sort_key_id_if_sorted) (simp add: choppy_series_def bar_at_simps)

lemma choppy_datetime: "to_datetime_ok choppy_series"
  by (simp add: to_datetime_ok_def datetime_bound_ms_def choppy_series_def bar_at_simps)

lemma choppy_closes:
  "map close choppy_series =
     [Some 1, Some 1, Some 1, Some 1, Some 2, Some 1, Some 1, Some 1, Some 1, Some 2,
      Some 1, Some 1, Some 1, Some 1, Some 2]"
  by (simp add: choppy_series_def bar_at_simps)

lemma choppy_ma5:
  "rolling_mean_last 5 [Some 1, Some 1, Some 1, Some 1, Some 2, Some 1, Some 1, Some 1, Some 1,
      Some 2, Some 1, Some 1, Some 1, Some 1, Some 2] = Finite (6 / 5)"
  by (simp add: rolling_mean_last_def)

lemma choppy_ma15:
  "rolling_mean_last 15 [Some 1, Some 1, Some 1, Some 1, Some 2, Some 1, Some 1, Some 1, Some 1,
      Some 2, Some 1, Some 1, Some 1, Some 1, Some 2] = Finite (6 / 5)"
  by (simp add: rolling_mean_last_def)

lemma choppy_pct:
  "map (\<lambda>p. np_mul p (Finite 100))
     (pct_change [Some 1, Some 1, Some 1, Some 1, Some 2, Some 1, Some 1, Some 1, Some 1,
        Some 2, Some 1, Some 1, Some 1, Some 1, Some 2])
   = [NaN, Finite 0, Finite 0, Finite 0, Finite 100, Finite (- 50), Finite 0, Finite 0,
      Finite 0, Finite 100, Finite (- 50), Finite 0, Finite 0, Finite 0, Finite 100]"
  by (simp add: pct_change_def)

lemma choppy_std:
  "np_gt (series_std [NaN, Finite 0, Finite 0, Finite 0, Finite 100, Finite (- 50), Finite 0,
      Finite 0, Finite 0, Finite 100, Finite (- 50), Finite 0, Finite 0, Finite 0, Finite 100])
     (Finite 2)"
proof -
  have "(2::real)\<^sup>2 < 225000 / 91" by simp
  then have "2 < sqrt (225000 / 91)" by (rule real_less_rsqrt)
  then show ?thesis
    by (simp add: series_std_def np_gt_def power2_eq_square)
qed

lemma choppy_volatility:
  "np_gt (pct_volatility [Some 1, Some 1, Some 1, Some 1, Some 2, Some 1, Some 1, Some 1,
      Some 1, Some 2, Some 1, Some 1, Some 1, Some 1, Some 2]) (Finite 2)"
  unfolding pct_volatility_def choppy_pct by (rule choppy_std)

lemma choppy_frame:
  "daily_fetch choppy_service 0 = choppy_series"
  "daily_frame choppy_service 0 = choppy_series"
  "daily_closes choppy_service 0 =
     [Some 1, Some 1, Some 1, Some 1, Some 2, Some 1, Some 1, Some 1, Some 1, Some 2,
      Some 1, Some 1, Some 1, Some 1, Some 2]"
proof -
  show f: "daily_fetch choppy_service 0 = choppy_series"
    by (simp add: daily_fetch_def choppy_service_def)
  show d: "daily_frame choppy_service 0 = choppy_series"
    unfolding daily_frame_def f choppy_dropna by (rule choppy_sorted)
  show "daily_closes choppy_service 0 =
     [Some 1, Some 1, Some 1, Some 1, Some 2, Some 1, Some 1, Some 1, Some 1, Some 2,
      Some 1, Some 1, Some 1, Some 1, Some 2]"
    unfolding daily_closes_def d by (rule choppy_closes)
qed

lemma daily_cascade_near_equal:
  assumes "\<not> isna m5" and "\<not> isna m15" and "rel_diff_below fl m5 m15 0.003"
  shows "daily_cascade fl lc m5 m15 vol
           = (if np_gt vol (Finite 2) then ''volatile'' else ''sideways'')"
  using assms by (simp add: daily_cascade_def Let_def)

lemma weekly_cascade_near_equal:
  assumes "rel_diff_below fl m20 m50 0.01"
  shows "weekly_cascade fl lc m20 m50 wc vol
           = (if np_gt vol (Finite 2) then ''volatile''
              else if np_gt lc m20 \<and> np_gt m20 m50
                then (if np_gt wc (Finite 5) then ''strongly bullish'' else ''bullish'')
              else if np_lt lc m20 \<and> np_lt m20 m50
                then (if np_lt wc (Finite (- 5)) then ''strongly bearish'' else ''bearish'')
              else if np_lt (np_abs wc) (Finite 1) then ''neutral''
              else ''sideways'')"
  using assms by (simp add: weekly_cascade_def Let_def)

lemma near_equal_exact:
  "rel_diff_below exact (Finite (6 / 5)) (Finite (6 / 5)) 0.003"
  "rel_diff_below exact (Finite 100) (Finite 100) 0.003"
  "rel_diff_below exact (Finite 100) (Finite 100) 0.01"
  by (simp_all add: exact_simps)

lemma choppy_daily:
  "get_daily_trend exact choppy_service 0 = Inr (''volatile'', Some choppy_series)"
proof -
  have a: "array_any (daily_fetch choppy_service 0)"
       "to_datetime_ok (dropna_close (daily_fetch choppy_service 0))"
       "daily_frame choppy_service 0 \<noteq> []"
    unfolding choppy_frame choppy_dropna
    by (simp_all add: choppy_any choppy_datetime) (simp add: choppy_series_def)
  have c: "daily_cascade exact lc (Finite (6 / 5)) (Finite (6 / 5)) vol
             = (if np_gt vol (Finite 2) then ''volatile'' else ''sideways'')" for lc vol
    by (rule daily_cascade_near_equal[OF _ _ near_equal_exact(1)]) simp_all
  show ?thesis
    unfolding get_daily_trend_cascade[of choppy_service 0 exact, OF a] choppy_frame exact_simps
      choppy_ma5 choppy_ma15 c
    using choppy_volatility by simp
qed

lemma map_filter_id_replicate: "List.map_filter id (replicate n (Some c)) = replicate n c"
  by (induction n) simp_all

lemma rolling_mean_last_replicate:
  assumes "0 < n" and "n \<le> m"
  shows "rolling_mean_last n (replicate m (Some c)) = Finite c"
proof -
  have d: "drop (m - n) (replicate m (Some c)) = replicate n (Some c)"
    using assms by simp
  have a: "list_all (\<lambda>x. x \<noteq> None) (replicate n (Some c))"
    by (simp add: list_all_iff)
  show ?thesis
    using assms
    by (simp add: rolling_mean_last_def Let_def list_all_iff map_filter_id_replicate
          sum_list_replicate)
qed

lemma ffill_replicate: "ffill p (replicate n (Some c)) = replicate n (Some c)"
  by (induction n arbitrary: p) simp_all

lemma pct_change_replicate:
  assumes "c \<noteq> 0"
  shows "pct_change (replicate (Suc m) (Some c)) = NaN # replicate m (Finite 0)"
proof -
  have z: "zip (replicate m (Some c)) (Some c # replicate m (Some c))
             = replicate m (Some c, Some c)"
    using zip_replicate[of m "Some c" "Suc m" "Some c"] by simp
  show ?thesis
    using assms by (simp add: pct_change_def ffill_replicate z del: replicate_Suc)
       (simp add: ffill_replicate z)
qed

lemma series_std_zeros:
  assumes "2 \<le> m"
  shows "series_std (NaN # replicate m (Finite 0)) = Finite 0"
proof -
  have f: "filter (\<lambda>x. \<not> isna x) (NaN # replicate m (Finite 0)) = replicate m (Finite 0)"
    by simp
  have i: "\<not> list_ex isinf (replicate m (Finite 0))" by (simp add: list_ex_iff)
  have r: "map the_finite (replicate m (Finite 0)) = replicate m 0" by simp
  show ?thesis
    unfolding series_std_def Let_def f r
    using assms i by (simp add: sum_list_replicate)
qed

lemma steady_volatility: "pct_volatility (replicate 50 (Some 100)) = Finite 0"
proof -
  have p: "pct_change (replicate 50 (Some (100::real))) = NaN # replicate 49 (Finite 0)"
    using pct_change_replicate[of 100 49] by simp
  have m: "map (\<lambda>p. np_mul p (Finite 100)) (NaN # replicate 49 (Finite 0))
             = NaN # replicate 49 (Finite 0)"
    by simp
  have s: "series_std (NaN # replicate 49 (Finite 0)) = Finite 0"
    by (rule series_std_zeros) simp
  show ?thesis unfolding pct_volatility_def p m s ..
qed

lemma steady_ma:
  "rolling_mean_last 5 (replicate 50 (Some (100::real))) = Finite 100"
  "rolling_mean_last 15 (replicate 50 (Some (100::real))) = Finite 100"
  "rolling_mean_last 20 (replicate 50 (Some (100::real))) = Finite 100"
  "rolling_mean_last 50 (replicate 50 (Some (100::real))) = Finite 100"
  by (rule rolling_mean_last_replicate; simp)+

lemma steady_last: "of_opt (last (replicate 50 (Some (100::real)))) = Finite 100"
  by simp

lemma steady_closes: "map close steady_series = replicate 50 (Some 100)"
  by (simp add: steady_series_def bar_at_simps comp_def) (simp add: eval_nat_numeral)

lemma steady_any: "array_any steady_series"
  unfolding steady_series_def by (simp add: array_any_def bar_at_truthy)

lemma steady_datetime: "to_datetime_ok steady_series"
  by (auto simp: to_datetime_ok_def datetime_bound_ms_def steady_series_def bar_at_simps
        list_all_iff)

lemma steady_frame:
  "daily_fetch steady_service 0 = steady_series"
  "daily_frame steady_service 0 = steady_series"
  "daily_closes steady_service 0 = replicate 50 (Some 100)"
  "weekly_frame steady_service 0 = steady_series"
proof -
  have d: "dropna_close steady_series = steady_series"
    by (simp add: dropna_close_def steady_series_def bar_at_simps)
  have s: "sort_key timestamp steady_series = steady_series"
    by (rule sort_key_id_if_sorted) (simp add: steady_series_def bar_at_simps)
  show f: "daily_fetch steady_service 0 = steady_series"
    by (simp add: daily_fetch_def steady_service_def)
  show r: "daily_frame steady_service 0 = steady_series"
    unfolding daily_frame_def f d by (rule s)
  show "daily_closes steady_service 0 = replicate 50 (Some 100)"
    unfolding daily_closes_def r by (rule steady_closes)
  show "weekly_frame steady_service 0 = steady_series"
    by (simp add: weekly_frame_def steady_service_def)
qed

lemma steady_guards:
  "array_any (daily_fetch steady_service 0)"
  "to_datetime_ok (dropna_close (daily_fetch steady_service 0))"
  "daily_frame steady_service 0 \<noteq> []"
  "array_any (weekly_frame steady_service 0)"
  "to_datetime_ok (weekly_frame steady_service 0)"
proof -
  have d: "dropna_close steady_series = steady_series"
    by (simp add: dropna_close_def steady_series_def bar_at_simps)
  show "array_any (daily_fetch steady_service 0)" "array_any (weekly_frame steady_service 0)"
    unfolding steady_frame by (rule steady_any)+
  show "to_datetime_ok (dropna_close (daily_fetch steady_service 0))"
    unfolding steady_frame d by (rule steady_datetime)
  show "to_datetime_ok (weekly_frame steady_service 0)"
    unfolding steady_frame by (rule steady_datetime)
  show "daily_frame steady_service 0 \<noteq> []"
    unfolding steady_frame by (simp add: steady_series_def)
qed

lemma steady_quantities:
  "weekly_close steady_service 0 = Finite 100"
  "weekly_ma exact 20 steady_service 0 = Finite 100"
  "weekly_ma exact 50 steady_service 0 = Finite 100"
  "weekly_change exact steady_service 0 = Finite 0"
  "weekly_volatility exact steady_service 0 = Finite 0"
proof -
  show c: "weekly_close steady_service 0 = Finite 100"
    unfolding weekly_close_def steady_frame steady_closes by (rule steady_last)
  show "weekly_ma exact 20 steady_service 0 = Finite 100"
       "weekly_ma exact 50 steady_service 0 = Finite 100"
    unfolding weekly_ma_def steady_frame steady_closes exact_simps by (rule steady_ma)+
  have h: "open_price (hd steady_series) = 100"
    by (simp add: steady_series_def bar_at_simps)
  show "weekly_change exact steady_service 0 = Finite 0"
    unfolding weekly_change_def c unfolding steady_frame h by (simp add: exact_simps)
  show "weekly_volatility exact steady_service 0 = Finite 0"
    unfolding weekly_volatility_def steady_frame steady_closes exact_simps
    by (rule steady_volatility)
qed

lemma drift_closes: "map close drift_series = replicate 50 (Some 100)"
  by (simp add: drift_series_def bar_at_simps comp_def) (simp add: bar_at_def eval_nat_numeral)

lemma drift_frame: "weekly_frame drift_service 0 = drift_series"
  by (simp add: weekly_frame_def drift_service_def)

lemma drift_guards:
  "array_any (weekly_frame drift_service 0)"
  "to_datetime_ok (weekly_frame drift_service 0)"
proof -
  show "array_any (weekly_frame drift_service 0)"
    unfolding drift_frame drift_series_def
    by (simp add: array_any_def candle_truthy_def bar_at_def)
  show "to_datetime_ok (weekly_frame drift_service 0)"
    unfolding drift_frame
    by (auto simp: to_datetime_ok_def datetime_bound_ms_def drift_series_def bar_at_def
          list_all_iff)
qed

lemma drift_quantities:
  "weekly_close drift_service 0 = Finite 100"
  "weekly_ma exact 20 drift_service 0 = Finite 100"
  "weekly_ma exact 50 drift_service 0 = Finite 100"
  "weekly_change exact drift_service 0 = Finite (100 / 9)"
  "weekly_volatility exact drift_service 0 = Finite 0"
proof -
  show c: "weekly_close drift_service 0 = Finite 100"
    unfolding weekly_close_def drift_frame drift_closes by (rule steady_last)
  show "weekly_ma exact 20 drift_service 0 = Finite 100"
       "weekly_ma exact 50 drift_service 0 = Finite 100"
    unfolding weekly_ma_def drift_frame drift_closes exact_simps by (rule steady_ma)+
  have h: "open_price (hd drift_series) = 90"
    by (simp add: drift_series_def bar_at_def)
  show "weekly_change exact drift_service 0 = Finite (100 / 9)"
    unfolding weekly_change_def c unfolding drift_frame h by (simp add: exact_simps)
  show "weekly_volatility exact drift_service 0 = Finite 0"
    unfolding weekly_volatility_def drift_frame drift_closes exact_simps
    by (rule steady_volatility)
qed

text \<open>
  Claim C7 as stated fails for both classifications. Daily: a series whose two moving
  averages are equal but whose price changes are large is "volatile". Weekly: a flat series,
  whose two moving averages are equal, is "neutral".
\<close>

theorem sideways_override_counterexample:
  "rolling_mean exact 5 (daily_closes choppy_service 0) = Finite (6 / 5)
   \<and> rolling_mean exact 15 (daily_closes choppy_service 0) = Finite (6 / 5)
   \<and> rel_diff_below exact (Finite (6 / 5)) (Finite (6 / 5)) 0.003
   \<and> get_daily_trend exact choppy_service 0 = Inr (''volatile'', Some choppy_series)
   \<and> weekly_ma exact 20 steady_service 0 = Finite 100
   \<and> weekly_ma exact 50 steady_service 0 = Finite 100
   \<and> rel_diff_below exact (Finite 100) (Finite 100) 0.01
   \<and> get_weekly_trends exact steady_service 0 = Inr (''neutral'', steady_series)"
proof -
  have m: "rolling_mean exact 5 (daily_closes choppy_service 0) = Finite (6 / 5)"
          "rolling_mean exact 15 (daily_closes choppy_service 0) = Finite (6 / 5)"
    unfolding choppy_frame exact_simps by (rule choppy_ma5 choppy_ma15)+
  have c: "weekly_cascade exact (Finite 100) (Finite 100) (Finite 100) (Finite 0) (Finite 0)
             = ''neutral''"
    by (simp add: weekly_cascade_near_equal[OF near_equal_exact(3)] np_gt_def)
  have w: "get_weekly_trends exact steady_service 0 = Inr (''neutral'', steady_series)"
    unfolding get_weekly_trends_cascade[of steady_service 0 exact, OF steady_guards(4,5)]
      steady_quantities c steady_frame ..
  from m near_equal_exact(1,3) choppy_daily steady_quantities(2,3) w
  show ?thesis by (intro conjI)
qed

text \<open>
  Claim C7, amended. Daily, on a fetched series that passes the guards of the method (it has
  a non-zero entry, the timestamps of its rows with a closing price convert to datetimes, and
  there is such a row): whenever the 5- and 15-period moving averages are defined and
  near-equal (\<^verbatim>\<open>abs(ma5 - ma15) / ma15 < 0.003\<close>), \<^verbatim>\<open>get_daily_trend\<close> returns "sideways"
  whatever the position of the latest close, unless the standard deviation of the percentage
  price changes exceeds 2, in which case it returns "volatile". Weekly, on a fetched series
  that passes the guards (a non-zero entry, timestamps that convert): when the 20- and
  50-period moving averages are near-equal (\<^verbatim>\<open>abs(ma20 - ma50) / ma50 < 0.01\<close>),
  \<^verbatim>\<open>get_weekly_trends\<close> returns "volatile" if the standard deviation exceeds 2; otherwise
  "strongly bullish" or "bullish" if the close is above ma20 and ma20 above ma50 (strongly
  when the weekly change exceeds 5 per cent), "strongly bearish" or "bearish" in the mirrored
  case; otherwise "neutral" if the weekly change is below 1 per cent in absolute value; and
  "sideways" in the remaining case. So it returns "sideways" if and only if the standard
  deviation does not exceed 2, neither strict ordering holds and the weekly change is not
  below 1 per cent in absolute value. The arithmetic is any \<open>fl\<close>: the outcomes of the
  tests are the hypotheses.
\<close>

theorem sideways_rule:
  "(array_any (daily_fetch svc period)
      \<and> to_datetime_ok (dropna_close (daily_fetch svc period))
      \<and> daily_frame svc period \<noteq> []
      \<and> \<not> isna (rolling_mean fl 5 (daily_closes svc period))
      \<and> \<not> isna (rolling_mean fl 15 (daily_closes svc period))
      \<and> rel_diff_below fl (rolling_mean fl 5 (daily_closes svc period))
            (rolling_mean fl 15 (daily_closes svc period)) 0.003
    \<longrightarrow> get_daily_trend fl svc period
          = Inr (if np_gt (pct_change_std fl (daily_closes svc period)) (Finite 2)
                 then ''volatile'' else ''sideways'',
                 Some (daily_frame svc period)))
   \<and> (array_any (weekly_frame svc period)
      \<and> to_datetime_ok (weekly_frame svc period)
      \<and> rel_diff_below fl (weekly_ma fl 20 svc period) (weekly_ma fl 50 svc period) 0.01
    \<longrightarrow> get_weekly_trends fl svc period
          = Inr (if np_gt (weekly_volatility fl svc period) (Finite 2) then ''volatile''
                 else if np_gt (weekly_close svc period) (weekly_ma fl 20 svc period)
                         \<and> np_gt (weekly_ma fl 20 svc period) (weekly_ma fl 50 svc period)
                   then (if np_gt (weekly_change fl svc period) (Finite 5)
                         then ''strongly bullish'' else ''bullish'')
                 else if np_lt (weekly_close svc period) (weekly_ma fl 20 svc period)
                         \<and> np_lt (weekly_ma fl 20 svc period) (weekly_ma fl 50 svc period)
                   then (if np_lt (weekly_change fl svc period) (Finite (- 5))
                         then ''strongly bearish'' else ''bearish'')
                 else if np_lt (np_abs (weekly_change fl svc period)) (Finite 1)
                   then ''neutral''
                 else ''sideways'',
                 weekly_frame svc period)
        \<and> (get_weekly_trends fl svc period = Inr (''sideways'', weekly_frame svc period)
             \<longleftrightarrow> \<not> np_gt (weekly_volatility fl svc period) (Finite 2)
                 \<and> \<not> (np_gt (weekly_close svc period) (weekly_ma fl 20 svc period)
                        \<and> np_gt (weekly_ma fl 20 svc period) (weekly_ma fl 50 svc period))
                 \<and> \<not> (np_lt (weekly_close svc period) (weekly_ma fl 20 svc period)
                        \<and> np_lt (weekly_ma fl 20 svc period) (weekly_ma fl 50 svc period))
                 \<and> \<not> np_lt (np_abs (weekly_change fl svc period)) (Finite 1)))"
proof (intro conjI impI)
  assume h: "array_any (daily_fetch svc period)
      \<and> to_datetime_ok (dropna_close (daily_fetch svc period))
      \<and> daily_frame svc period \<noteq> []
      \<and> \<not> isna (rolling_mean fl 5 (daily_closes svc period))
      \<and> \<not> isna (rolling_mean fl 15 (daily_closes svc period))
      \<and> rel_diff_below fl (rolling_mean fl 5 (daily_closes svc period))
            (rolling_mean fl 15 (daily_closes svc period)) 0.003"
  then have g: "array_any (daily_fetch svc period)"
      "to_datetime_ok (dropna_close (daily_fetch svc period))"
      "daily_frame svc period \<noteq> []"
    and n: "\<not> isna (rolling_mean fl 5 (daily_closes svc period))"
      "\<not> isna (rolling_mean fl 15 (daily_closes svc period))"
      "rel_diff_below fl (rolling_mean fl 5 (daily_closes svc period))
            (rolling_mean fl 15 (daily_closes svc period)) 0.003"
    by blast+
  show "get_daily_trend fl svc period
          = Inr (if np_gt (pct_change_std fl (daily_closes svc period)) (Finite 2)
                 then ''volatile'' else ''sideways'',
                 Some (daily_frame svc period))"
    unfolding get_daily_trend_cascade[of svc period fl, OF g] daily_cascade_near_equal[OF n] ..
next
  assume h: "array_any (weekly_frame svc period)
      \<and> to_datetime_ok (weekly_frame svc period)
      \<and> rel_diff_below fl (weekly_ma fl 20 svc period) (weekly_ma fl 50 svc period) 0.01"
  then have g: "array_any (weekly_frame svc period)" "to_datetime_ok (weekly_frame svc period)"
    and n: "rel_diff_below fl (weekly_ma fl 20 svc period) (weekly_ma fl 50 svc period) 0.01"
    by blast+
  show "get_weekly_trends fl svc period
          = Inr (if np_gt (weekly_volatility fl svc period) (Finite 2) then ''volatile''
                 else if np_gt (weekly_close svc period) (weekly_ma fl 20 svc period)
                         \<and> np_gt (weekly_ma fl 20 svc period) (weekly_ma fl 50 svc period)
                   then (if np_gt (weekly_change fl svc period) (Finite 5)
                         then ''strongly bullish'' else ''bullish'')
                 else if np_lt (weekly_close svc period) (weekly_ma fl 20 svc period)
                         \<and> np_lt (weekly_ma fl 20 svc period) (weekly_ma fl 50 svc period)
                   then (if np_lt (weekly_change fl svc period) (Finite (- 5))
                         then ''strongly bearish'' else ''bearish'')
                 else if np_lt (np_abs (weekly_change fl svc period)) (Finite 1)
                   then ''neutral''
                 else ''sideways'',
                 weekly_frame svc period)"
    unfolding get_weekly_trends_cascade[of svc period fl, OF g] weekly_cascade_near_equal[OF n] ..
next
  assume h: "array_any (weekly_frame svc period)
      \<and> to_datetime_ok (weekly_frame svc period)
      \<and> rel_diff_below fl (weekly_ma fl 20 svc period) (weekly_ma fl 50 svc period) 0.01"
  then have g: "array_any (weekly_frame svc period)" "to_datetime_ok (weekly_frame svc period)"
    and n: "rel_diff_below fl (weekly_ma fl 20 svc period) (weekly_ma fl 50 svc period) 0.01"
    by blast+
  show "get_weekly_trends fl svc period = Inr (''sideways'', weekly_frame svc period)
             \<longleftrightarrow> \<not> np_gt (weekly_volatility fl svc period) (Finite 2)
                 \<and> \<not> (np_gt (weekly_close svc period) (weekly_ma fl 20 svc period)
                        \<and> np_gt (weekly_ma fl 20 svc period) (weekly_ma fl 50 svc period))
                 \<and> \<not> (np_lt (weekly_close svc period) (weekly_ma fl 20 svc period)
                        \<and> np_lt (weekly_ma fl 20 svc period) (weekly_ma fl 50 svc period))
                 \<and> \<not> np_lt (np_abs (weekly_change fl svc period)) (Finite 1)"
    unfolding get_weekly_trends_cascade[of svc period fl, OF g] weekly_cascade_near_equal[OF n]
    by simp
qed

theorem sideways_rule_witness:
  "array_any (daily_fetch steady_service 0)
   \<and> to_datetime_ok (dropna_close (daily_fetch steady_service 0))
   \<and> daily_frame steady_service 0 = steady_series
   \<and> rolling_mean exact 5 (daily_closes steady_service 0) = Finite 100
   \<and> rolling_mean exact 15 (daily_closes steady_service 0) = Finite 100
   \<and> rel_diff_below exact (Finite 100) (Finite 100) 0.003
   \<and> pct_change_std exact (daily_closes steady_service 0) = Finite 0
   \<and> get_daily_trend exact steady_service 0 = Inr (''sideways'', Some steady_series)
   \<and> array_any (weekly_frame drift_service 0)
   \<and> to_datetime_ok (weekly_frame drift_service 0)
   \<and> weekly_close drift_service 0 = Finite 100
   \<and> weekly_ma exact 20 drift_service 0 = Finite 100
   \<and> weekly_ma exact 50 drift_service 0 = Finite 100
   \<and> rel_diff_below exact (Finite 100) (Finite 100) 0.01
   \<and> weekly_change exact drift_service 0 = Finite (100 / 9)
   \<and> weekly_volatility exact drift_service 0 = Finite 0
   \<and> get_weekly_trends exact drift_service 0 = Inr (''sideways'', drift_series)"
proof -
  have m: "rolling_mean exact 5 (daily_closes steady_service 0) = Finite 100"
          "rolling_mean exact 15 (daily_closes steady_service 0) = Finite 100"
    unfolding steady_frame exact_simps by (rule steady_ma)+
  have v: "pct_change_std exact (daily_closes steady_service 0) = Finite 0"
    unfolding steady_frame exact_simps by (rule steady_volatility)
  have d: "array_any (daily_fetch steady_service 0)
      \<and> to_datetime_ok (dropna_close (daily_fetch steady_service 0))
      \<and> daily_frame steady_service 0 \<noteq> []
      \<and> \<not> isna (rolling_mean exact 5 (daily_closes steady_service 0))
      \<and> \<not> isna (rolling_mean exact 15 (daily_closes steady_service 0))
      \<and> rel_diff_below exact (rolling_mean exact 5 (daily_closes steady_service 0))
            (rolling_mean exact 15 (daily_closes steady_service 0)) 0.003"
    unfolding m using steady_guards(1,2,3) near_equal_exact(2) by simp
  have k: "array_any (weekly_frame drift_service 0)
      \<and> to_datetime_ok (weekly_frame drift_service 0)
      \<and> rel_diff_below exact (weekly_ma exact 20 drift_service 0)
            (weekly_ma exact 50 drift_service 0) 0.01"
    unfolding drift_quantities using drift_guards near_equal_exact(3) by simp
  from sideways_rule[of steady_service 0 exact] d
  have "get_daily_trend exact steady_service 0
          = Inr (if np_gt (pct_change_std exact (daily_closes steady_service 0)) (Finite 2)
                 then ''volatile'' else ''sideways'',
                 Some (daily_frame steady_service 0))"
    by blast
  then have 1: "get_daily_trend exact steady_service 0 = Inr (''sideways'', Some steady_series)"
    unfolding v unfolding steady_frame by (simp add: np_gt_def)
  from sideways_rule[of drift_service 0 exact] k
  have "get_weekly_trends exact drift_service 0 = Inr (''sideways'', weekly_frame drift_service 0)
          \<longleftrightarrow> \<not> np_gt (weekly_volatility exact drift_service 0) (Finite 2)
              \<and> \<not> (np_gt (weekly_close drift_service 0) (weekly_ma exact 20 drift_service 0)
                     \<and> np_gt (weekly_ma exact 20 drift_service 0)
                          (weekly_ma exact 50 drift_service 0))
              \<and> \<not> (np_lt (weekly_close drift_service 0) (weekly_ma exact 20 drift_service 0)
                     \<and> np_lt (weekly_ma exact 20 drift_service 0)
                          (weekly_ma exact 50 drift_service 0))
              \<and> \<not> np_lt (np_abs (weekly_change exact drift_service 0)) (Finite 1)"
    by blast
  then have 2: "get_weekly_trends exact drift_service 0 = Inr (''sideways'', drift_series)"
    unfolding drift_quantities drift_frame by (simp add: np_gt_def)
  from steady_guards(1,2) steady_frame(2) m near_equal_exact(2) v 1 drift_guards
    drift_quantities(1,2,3) near_equal_exact(3) drift_quantities(4,5) 2
  show ?thesis by (intro conjI)
qed

section \<open>Properties of the medium-horizon variation\<close>

lemma last_close_any:
  assumes "df \<noteq> []" and "close (last df) = Some e" and "e \<noteq> 0"
  shows "array_any df"
proof -
  from assms(1) have "last df \<in> set df" by simp
  moreover from assms(2,3) have "candle_truthy (last df)" by (simp add: candle_truthy_def)
  ultimately show ?thesis by (auto simp: array_any_def list_ex_iff)
qed

lemma get_8h_variation_first:
  assumes "array_any (svc ''1H'' period (period + 28800000))"
    and "close (last (svc ''1H'' period (period + 28800000))) = Some e" and "e \<noteq> 0"
    and "Min (low ` set (svc ''1H'' period (period + 28800000))) \<noteq> 0"
  shows "get_8h_variation svc period
           = ([''1H''], Inr (Finite ((open_price (hd (svc ''1H'' period (period + 28800000))) - e)
                                        / e * 100),
                             svc ''1H'' period (period + 28800000)))"
  using get_8h_variation_value[OF assms(1) assms(2) assms(3) assms(4), of "[''1H'']"] assms(1)
  by (simp add: get_8h_variation_def Let_def)

lemma get_8h_variation_second:
  assumes "\<not> array_any (svc ''1H'' period (period + 28800000))"
    and "array_any (svc ''4H'' period (period + 28800000))"
    and "close (last (svc ''4H'' period (period + 28800000))) = Some e" and "e \<noteq> 0"
    and "Min (low ` set (svc ''4H'' period (period + 28800000))) \<noteq> 0"
  shows "get_8h_variation svc period
           = ([''1H'', ''4H''],
              Inr (Finite ((open_price (hd (svc ''4H'' period (period + 28800000))) - e)
                              / e * 100),
                   svc ''4H'' period (period + 28800000)))"
  using get_8h_variation_value[OF assms(2) assms(3) assms(4) assms(5), of "[''1H'', ''4H'']"]
    assms(1,2)
  by (simp add: get_8h_variation_def Let_def)

text \<open>
  Claim C4 fails of the code on a series whose lowest low is 0. With one hourly bar that
  opened at 100, traded down to 0 and closed at 80, the variation the claim gives is
  \<open>(100 - 80) / 80 * 100 = 25\<close>. \<^verbatim>\<open>get_8h_variation\<close> computes it, and then raises
  \<^verbatim>\<open>ZeroDivisionError\<close> in the division by the lowest low, the result of which
  (\<^verbatim>\<open>regg\<close>) it does not use.
\<close>

theorem get_8h_variation_zero_low:
  "zero_low_service ''1H'' 0 (0 + 8 * 60 * 60 * 1000) = [bar_zero_low]
   \<and> open_price bar_zero_low = 100 \<and> low bar_zero_low = 0 \<and> close bar_zero_low = Some 80
   \<and> py_truediv (np_sub (Finite 100) (Finite 80)) (Finite 80) = Inr (Finite (1 / 4))
   \<and> np_mul (Finite (1 / 4)) (Finite 100) = Finite 25
   \<and> py_truediv (np_sub (Finite 100) (Finite (min_list (map low [bar_zero_low]))))
         (Finite (min_list (map low [bar_zero_low]))) = Inl ZeroDivisionError
   \<and> get_8h_variation zero_low_service 0 = ([''1H''], Inl ZeroDivisionError)"
proof -
  have a: "array_any [bar_zero_low]"
    by (simp add: array_any_def candle_truthy_def bar_zero_low_def)
  have f: "open_price bar_zero_low = 100" "low bar_zero_low = 0" "close bar_zero_low = Some 80"
    by (simp_all add: bar_zero_low_def)
  have g: "get_8h_variation zero_low_service 0 = ([''1H''], Inl ZeroDivisionError)"
    by (simp add: get_8h_variation_def zero_low_service_def a Let_def f py_truediv_def)
  have d: "py_truediv (np_sub (Finite 100) (Finite 80)) (Finite 80) = Inr (Finite (1 / 4))"
          "np_mul (Finite (1 / 4)) (Finite 100) = Finite 25"
          "py_truediv (np_sub (Finite 100) (Finite (min_list (map low [bar_zero_low]))))
             (Finite (min_list (map low [bar_zero_low]))) = Inl ZeroDivisionError"
    by (simp_all add: py_truediv_def f)
  have z: "zero_low_service ''1H'' 0 (0 + 8 * 60 * 60 * 1000) = [bar_zero_low]"
    by (simp add: zero_low_service_def)
  from z f d g show ?thesis by (intro conjI)
qed

text \<open>
  Away from the zero divisors \<^verbatim>\<open>get_8h_variation\<close> does what it is meant to. It fetches at
  1H. When that series is not empty and its last close \<open>e\<close> and its minimum low are non-zero,
  nothing else is fetched and the value returned is \<open>(open of the first bar - e) / e * 100\<close>.
  When the 1H series is empty, the 4H series is fetched, once, and the value is computed from
  it in the same way; when the 4H series is empty too, the method raises. A 1H series that is
  not empty, with candles that carry non-zero timestamps, is never followed by a second fetch.
\<close>

lemma get_8h_variation_fallback:
  "(svc ''1H'' period (period + 8 * 60 * 60 * 1000) \<noteq> []
      \<and> close (last (svc ''1H'' period (period + 8 * 60 * 60 * 1000))) = Some e \<and> e \<noteq> 0
      \<and> Min (low ` set (svc ''1H'' period (period + 8 * 60 * 60 * 1000))) \<noteq> 0
    \<longrightarrow> get_8h_variation svc period
          = ([''1H''],
             Inr (Finite ((open_price (hd (svc ''1H'' period (period + 8 * 60 * 60 * 1000))) - e)
                             / e * 100),
                  svc ''1H'' period (period + 8 * 60 * 60 * 1000))))
   \<and> (svc ''1H'' period (period + 8 * 60 * 60 * 1000) = []
      \<and> svc ''4H'' period (period + 8 * 60 * 60 * 1000) \<noteq> []
      \<and> close (last (svc ''4H'' period (period + 8 * 60 * 60 * 1000))) = Some e \<and> e \<noteq> 0
      \<and> Min (low ` set (svc ''4H'' period (period + 8 * 60 * 60 * 1000))) \<noteq> 0
    \<longrightarrow> get_8h_variation svc period
          = ([''1H'', ''4H''],
             Inr (Finite ((open_price (hd (svc ''4H'' period (period + 8 * 60 * 60 * 1000))) - e)
                             / e * 100),
                  svc ''4H'' period (period + 8 * 60 * 60 * 1000))))
   \<and> (svc ''1H'' period (period + 8 * 60 * 60 * 1000) = []
      \<and> svc ''4H'' period (period + 8 * 60 * 60 * 1000) = []
    \<longrightarrow> get_8h_variation svc period = ([''1H'', ''4H''], Inl PyException))
   \<and> (svc ''1H'' period (period + 8 * 60 * 60 * 1000) \<noteq> []
      \<and> stamped (svc ''1H'' period (period + 8 * 60 * 60 * 1000))
    \<longrightarrow> fst (get_8h_variation svc period) = [''1H''])"
proof -
  let ?a = "svc ''1H'' period (period + 28800000)"
  let ?b = "svc ''4H'' period (period + 28800000)"
  have 1: "get_8h_variation svc period
          = ([''1H''], Inr (Finite ((open_price (hd ?a) - e) / e * 100), ?a))"
    if "?a \<noteq> [] \<and> close (last ?a) = Some e \<and> e \<noteq> 0 \<and> Min (low ` set ?a) \<noteq> 0"
  proof -
    from that have "array_any ?a" using last_close_any[of ?a e] by blast
    with that show ?thesis using get_8h_variation_first[of svc period e] by blast
  qed
  have 2: "get_8h_variation svc period
          = ([''1H'', ''4H''], Inr (Finite ((open_price (hd ?b) - e) / e * 100), ?b))"
    if "?a = [] \<and> ?b \<noteq> [] \<and> close (last ?b) = Some e \<and> e \<noteq> 0 \<and> Min (low ` set ?b) \<noteq> 0"
  proof -
    from that have b: "array_any ?b" using last_close_any[of ?b e] by blast
    from that have a: "\<not> array_any ?a" by (simp add: array_any_def)
    from a b that show ?thesis using get_8h_variation_second[of svc period e] by blast
  qed
  have 3: "get_8h_variation svc period = ([''1H'', ''4H''], Inl PyException)"
    if "?a = [] \<and> ?b = []"
    using that by (simp add: get_8h_variation_def Let_def array_any_def)
  have 4: "fst (get_8h_variation svc period) = [''1H'']" if "?a \<noteq> [] \<and> stamped ?a"
  proof -
    from that have "array_any ?a" using stamped_any[of ?a] by blast
    then show ?thesis using get_8h_variation_fetched[of svc period] by simp
  qed
  have eq: "period + 8 * 60 * 60 * 1000 = period + 28800000" by simp
  show ?thesis unfolding eq using 1 2 3 4 by blast
qed

lemma get_8h_variation_fallback_example:
  "two_bar_service ''1H'' 0 (0 + 8 * 60 * 60 * 1000) \<noteq> []
   \<and> stamped (two_bar_service ''1H'' 0 (0 + 8 * 60 * 60 * 1000))
   \<and> close (last (two_bar_service ''1H'' 0 (0 + 8 * 60 * 60 * 1000))) = Some 110
   \<and> (110::real) \<noteq> 0
   \<and> Min (low ` set (two_bar_service ''1H'' 0 (0 + 8 * 60 * 60 * 1000))) \<noteq> 0
   \<and> get_8h_variation two_bar_service 0
       = ([''1H''], Inr (Finite ((100 - 110) / 110 * 100), [bar1, bar2]))
   \<and> fallback_service ''1H'' 0 (0 + 8 * 60 * 60 * 1000) = []
   \<and> fallback_service ''4H'' 0 (0 + 8 * 60 * 60 * 1000) \<noteq> []
   \<and> close (last (fallback_service ''4H'' 0 (0 + 8 * 60 * 60 * 1000))) = Some 110
   \<and> Min (low ` set (fallback_service ''4H'' 0 (0 + 8 * 60 * 60 * 1000))) \<noteq> 0
   \<and> get_8h_variation fallback_service 0
       = ([''1H'', ''4H''], Inr (Finite ((100 - 110) / 110 * 100), [bar1, bar2]))
   \<and> empty_service ''1H'' 0 (0 + 8 * 60 * 60 * 1000) = []
   \<and> empty_service ''4H'' 0 (0 + 8 * 60 * 60 * 1000) = []
   \<and> get_8h_variation empty_service 0 = ([''1H'', ''4H''], Inl PyException)"
proof -
  have t: "two_bar_service ''1H'' 0 (0 + 8 * 60 * 60 * 1000) \<noteq> []
     \<and> close (last (two_bar_service ''1H'' 0 (0 + 8 * 60 * 60 * 1000))) = Some 110
     \<and> (110::real) \<noteq> 0
     \<and> Min (low ` set (two_bar_service ''1H'' 0 (0 + 8 * 60 * 60 * 1000))) \<noteq> 0"
    using two_bar_facts by (simp add: two_bar_service_def)
  have ts: "stamped (two_bar_service ''1H'' 0 (0 + 8 * 60 * 60 * 1000))"
    using two_bar_facts(1) by (simp add: two_bar_service_def)
  have f: "fallback_service ''1H'' 0 (0 + 8 * 60 * 60 * 1000) = []
     \<and> fallback_service ''4H'' 0 (0 + 8 * 60 * 60 * 1000) \<noteq> []
     \<and> close (last (fallback_service ''4H'' 0 (0 + 8 * 60 * 60 * 1000))) = Some 110
     \<and> (110::real) \<noteq> 0
     \<and> Min (low ` set (fallback_service ''4H'' 0 (0 + 8 * 60 * 60 * 1000))) \<noteq> 0"
    using two_bar_facts by (simp add: fallback_service_def)
  have e: "empty_service ''1H'' 0 (0 + 8 * 60 * 60 * 1000) = []
     \<and> empty_service ''4H'' 0 (0 + 8 * 60 * 60 * 1000) = []"
    by (simp add: empty_service_def)
  from get_8h_variation_fallback[of two_bar_service 0 110] t
  have "get_8h_variation two_bar_service 0
       = ([''1H''],
          Inr (Finite ((open_price (hd (two_bar_service ''1H'' 0 (0 + 8 * 60 * 60 * 1000))) - 110)
                          / 110 * 100),
               two_bar_service ''1H'' 0 (0 + 8 * 60 * 60 * 1000)))"
    by blast
  then have 1: "get_8h_variation two_bar_service 0
       = ([''1H''], Inr (Finite ((100 - 110) / 110 * 100), [bar1, bar2]))"
    by (simp add: two_bar_service_def bar1_def)
  from get_8h_variation_fallback[of fallback_service 0 110] f
  have "get_8h_variation fallback_service 0
       = ([''1H'', ''4H''],
          Inr (Finite ((open_price (hd (fallback_service ''4H'' 0 (0 + 8 * 60 * 60 * 1000))) - 110)
                          / 110 * 100),
               fallback_service ''4H'' 0 (0 + 8 * 60 * 60 * 1000)))"
    by blast
  then have 2: "get_8h_variation fallback_service 0
       = ([''1H'', ''4H''], Inr (Finite ((100 - 110) / 110 * 100), [bar1, bar2]))"
    by (simp add: fallback_service_def bar1_def)
  from get_8h_variation_fallback[of empty_service 0 110] e
  have 3: "get_8h_variation empty_service 0 = ([''1H'', ''4H''], Inl PyException)"
    by blast
  from t ts f e 1 2 3 show ?thesis by blast
qed

section \<open>Properties of the candle fetcher\<close>

text \<open>
  Claim C5. For a supported bar duration \<^verbatim>\<open>get_candlestick_chart\<close> does not raise, whatever
  the upstream answers. It sends one request per chunk, in chunk order, to at most all chunks,
  and returns the batches of the requests sent, appended in that order. A response with a
  status other than 200, an empty batch, or (for a non-zero \<open>end_ms\<close>) a batch whose last
  candle has a timestamp at or after \<open>end_ms\<close> is the last one requested: the array returned
  is what was accumulated up to it, even if chunks remain. If chunks remain unrequested, the
  last response was one of these three.
\<close>

theorem get_candlestick_chart_walk:
  assumes "convert_granularity_to_ms gran = Inr g"
  shows "\<exists>calls sent arr.
      calculate_api_calls start_ms end_ms g = Inr calls
    \<and> get_candlestick_chart_log session symb gran start_ms end_ms = Inr (sent, arr)
    \<and> get_candlestick_chart session symb gran start_ms end_ms = Inr arr
    \<and> length sent \<le> length calls
    \<and> (\<forall>j < length sent.
           (end_ms \<noteq> 0 \<longrightarrow> endTime (sent ! j) = Some (end_time (calls ! j)))
         \<and> (start_ms \<noteq> 0 \<longrightarrow> startTime (sent ! j) = Some (start_time (calls ! j))))
    \<and> arr = concat (map (\<lambda>j. batch_of (session j (sent ! j))) [0..<length sent])
    \<and> (\<forall>j < length sent.
           (status (session j (sent ! j)) \<noteq> 200 \<longrightarrow> Suc j = length sent)
         \<and> (data (session j (sent ! j)) = [] \<longrightarrow> Suc j = length sent)
         \<and> (end_ms \<noteq> 0 \<and> timestamp (last (data (session j (sent ! j)))) \<ge> end_ms
              \<longrightarrow> Suc j = length sent))
    \<and> (length sent < length calls \<longrightarrow>
           sent \<noteq> [] \<and> stops_walk end_ms (session (length sent - 1) (last sent)))"
proof -
  have g: "0 < g" by (rule convert_granularity_to_ms_pos[OF assms(1)])
  from g obtain calls where c: "calculate_api_calls start_ms end_ms g = Inr calls"
    using calculate_api_calls_total[of g start_ms end_ms] by auto
  define res where "res = fetch_loop session symb gran start_ms end_ms 0 calls None None []"
  define sent where "sent = fst res"
  define arr where "arr = snd res"
  have l: "get_candlestick_chart_log session symb gran start_ms end_ms = Inr (sent, arr)"
    by (simp add: get_candlestick_chart_log_def assms(1) c sent_def arr_def res_def)
  then have a: "get_candlestick_chart session symb gran start_ms end_ms = Inr arr"
    by (simp add: get_candlestick_chart_def)
  have 1: "length sent \<le> length calls"
    unfolding sent_def res_def by (rule fetch_loop_length)
  have 2: "\<forall>j < length sent.
           (end_ms \<noteq> 0 \<longrightarrow> endTime (sent ! j) = Some (end_time (calls ! j)))
         \<and> (start_ms \<noteq> 0 \<longrightarrow> startTime (sent ! j) = Some (start_time (calls ! j)))"
    unfolding sent_def res_def
    using fetch_loop_requests[of _ session symb gran start_ms end_ms 0 calls None None "[]"]
    by blast
  have 3: "arr = concat (map (\<lambda>j. batch_of (session j (sent ! j))) [0..<length sent])"
    unfolding arr_def sent_def res_def
    using fetch_loop_array[of session symb gran start_ms end_ms 0 calls None None "[]"]
    by simp
  have st: "\<And>j. j < length sent \<Longrightarrow> stops_walk end_ms (session j (sent ! j))
              \<Longrightarrow> Suc j = length sent"
    unfolding sent_def res_def
    using fetch_loop_stops[of _ session symb gran start_ms end_ms 0 calls None None "[]"]
    by simp
  have 4: "\<forall>j < length sent.
           (status (session j (sent ! j)) \<noteq> 200 \<longrightarrow> Suc j = length sent)
         \<and> (data (session j (sent ! j)) = [] \<longrightarrow> Suc j = length sent)
         \<and> (end_ms \<noteq> 0 \<and> timestamp (last (data (session j (sent ! j)))) \<ge> end_ms
              \<longrightarrow> Suc j = length sent)"
    using st by (simp add: stops_walk_def)
  have 5: "length sent < length calls \<longrightarrow>
           sent \<noteq> [] \<and> stops_walk end_ms (session (length sent - 1) (last sent))"
    unfolding sent_def res_def
    using fetch_loop_early[of session symb gran start_ms end_ms 0 calls None None "[]"]
    by simp
  from c l a 1 2 3 4 5 show ?thesis by blast
qed

theorem get_candlestick_chart_walk_witness:
  "convert_granularity_to_ms ''1m'' = Inr 60000
   \<and> get_candlestick_chart two_page_session ''BTCUSDT'' ''1m'' 60000 120060000 = Inr [bar1, bar2]
   \<and> (\<exists>calls sent.
        calculate_api_calls 60000 120060000 60000 = Inr calls
      \<and> get_candlestick_chart_log two_page_session ''BTCUSDT'' ''1m'' 60000 120060000
           = Inr (sent, [bar1, bar2])
      \<and> length sent \<le> length calls
      \<and> [bar1, bar2] = concat (map (\<lambda>j. batch_of (two_page_session j (sent ! j))) [0..<length sent]))"
proof -
  have h: "convert_granularity_to_ms ''1m'' = Inr 60000"
    by (simp add: convert_granularity_to_ms_def)
  from get_candlestick_chart_walk[OF h, of 60000 120060000 two_page_session "''BTCUSDT''"]
  obtain calls sent arr where
    p: "calculate_api_calls 60000 120060000 60000 = Inr calls"
       "get_candlestick_chart_log two_page_session ''BTCUSDT'' ''1m'' 60000 120060000 = Inr (sent, arr)"
       "get_candlestick_chart two_page_session ''BTCUSDT'' ''1m'' 60000 120060000 = Inr arr"
       "length sent \<le> length calls"
       "arr = concat (map (\<lambda>j. batch_of (two_page_session j (sent ! j))) [0..<length sent])"
    by blast
  from p(3) two_page_fetch have arr: "arr = [bar1, bar2]" by simp
  show ?thesis
    using h two_page_fetch p(1) p(2)[unfolded arr] p(4) p(5)[unfolded arr] by blast
qed

end
